theory Spec2Isabelle
  imports Complex_Main
begin

section \<open>Values\<close>

text \<open>
  A Python \<open>datetime\<close>: calendar date and the time of day in microseconds.
\<close>

record datetime =
  dt_year :: nat
  dt_month :: nat
  dt_day :: nat
  dt_micros :: nat

text \<open>
  A Python \<open>str\<close> whose characters are looked at one by one (a phone number) is the sequence
  of its code points. Text that is only compared or searched is kept as a \<open>string\<close>.
\<close>

type_synonym pystr = "nat list"

text \<open>
  A \<open>DecimalField(max_digits=10, decimal_places=2)\<close> column holds a fixed-point number with
  two decimal places. It is represented exactly by its number of hundredths, an unbounded
  integer, so that \<open>Decimal('15.50')\<close> is \<open>1550\<close>; sums of such values are exact, as sums of
  Python \<open>Decimal\<close>s are (the default context of 28 digits is far beyond ten-digit columns).
\<close>

type_synonym decimal2 = int

text \<open>
  The subclasses of \<open>Exception\<close> that the framework and the store raise in the modelled code.
\<close>

datatype exn =
    DoesNotExist
  | MultipleObjectsReturned
  | ValueError string
  | InvalidOperation
  | ValidationError string
  | IntegrityError string
  | DatabaseError string

fun str_exn :: "exn \<Rightarrow> string" where
  "str_exn DoesNotExist = ''matching query does not exist.''"
| "str_exn MultipleObjectsReturned = ''get() returned more than one row''"
| "str_exn (ValueError m) = m"
| "str_exn InvalidOperation = ''[<class 'decimal.InvalidOperation'>]''"
| "str_exn (ValidationError m) = m"
| "str_exn (IntegrityError m) = m"
| "str_exn (DatabaseError m) = m"

section \<open>The entity store\<close>

text \<open>Rows of \<open>crm/models.py\<close>: \<open>Customer\<close>, \<open>Product\<close>, \<open>Order\<close>.\<close>

record customer =
  c_id :: int
  c_name :: string
  c_email :: string
  c_phone :: "pystr option"
  c_created_at :: datetime
  c_updated_at :: datetime

record product =
  p_id :: int
  p_name :: string
  p_price :: decimal2
  p_stock :: nat
  p_created_at :: datetime
  p_updated_at :: datetime

text \<open>
  An \<open>Order\<close> instance. Before its first save it has no primary key and no
  \<open>created_at\<close>/\<open>updated_at\<close>; a stored row is the instance as it was written.
\<close>

record order =
  o_pk :: "int option"
  o_customer_id :: int
  o_total_amount :: decimal2
  o_order_date :: "datetime option"
  o_created_at :: "datetime option"
  o_updated_at :: "datetime option"

text \<open>
  The relational store: the three tables, the table of the many-to-many field
  \<open>Order.products\<close> (rows \<open>(order_id, product_id)\<close>), and the id sequences (the
  last number handed out by each; generated ids start at 1).
\<close>

record database =
  customers :: "customer list"
  products :: "product list"
  orders :: "order list"
  order_products :: "(int \<times> int) list"
  customer_seq :: nat
  product_seq :: nat
  order_seq :: nat

text \<open>
  The world a request runs in: the store, a counter of the store operations and clock reads
  made so far, and what the environment answers to them. \<open>fault w n = Some m\<close> makes the
  \<open>n\<close>-th interaction, when it is a store operation, raise \<open>DatabaseError m\<close> without effect
  (store unavailable, constraint race); \<open>clock w n\<close> is the time read by the \<open>n\<close>-th
  interaction when it is a clock read.
\<close>

record world =
  db :: database
  tick :: nat
  fault :: "nat \<Rightarrow> string option"
  clock :: "nat \<Rightarrow> datetime"

section \<open>Control flow: raising, catching, transactions\<close>

text \<open>
  A computation either returns a value or raises, and in both cases leaves a world.
\<close>

type_synonym 'a io = "world \<Rightarrow> (exn + 'a) \<times> world"

definition return :: "'a \<Rightarrow> 'a io" where
  "return x w = (Inr x, w)"

definition raise :: "exn \<Rightarrow> 'a io" where
  "raise e w = (Inl e, w)"

definition and_then :: "'a io \<Rightarrow> ('a \<Rightarrow> 'b io) \<Rightarrow> 'b io" where
  "and_then m f w = (case m w of (Inl e, w') \<Rightarrow> (Inl e, w') | (Inr x, w') \<Rightarrow> f x w')"

text \<open>\<open>try: m except Exception as e: h e\<close>.\<close>

definition try_except :: "'a io \<Rightarrow> (exn \<Rightarrow> 'a io) \<Rightarrow> 'a io" where
  "try_except m h w = (case m w of (Inl e, w') \<Rightarrow> h e w' | (Inr x, w') \<Rightarrow> (Inr x, w'))"

text \<open>One statement sent to the store: it raises if the environment says so.\<close>

definition store_op :: "unit io" where
  "store_op w =
     (case fault w (tick w) of
        None \<Rightarrow> (Inr (), w\<lparr>tick := Suc (tick w)\<rparr>)
      | Some m \<Rightarrow> (Inl (DatabaseError m), w\<lparr>tick := Suc (tick w)\<rparr>))"

text \<open>Reading and changing the tables, once a statement got through.\<close>

definition get_db :: "(database \<Rightarrow> 'a) \<Rightarrow> 'a io" where
  "get_db f w = (Inr (f (db w)), w)"

definition set_db :: "(database \<Rightarrow> database) \<Rightarrow> unit io" where
  "set_db f w = (Inr (), w\<lparr>db := f (db w)\<rparr>)"

text \<open>\<open>datetime.now()\<close> and \<open>timezone.now()\<close>: a clock read.\<close>

definition now :: "datetime io" where
  "now w = (Inr (clock w (tick w)), w\<lparr>tick := Suc (tick w)\<rparr>)"

text \<open>
  \<open>with transaction.atomic(): body\<close>. Opening and committing are store operations. When the
  body or the commit raises, the tables are put back as they were on entry and the exception
  goes on. A statement that raises inside the block and is caught inside it has no effect,
  and the block goes on; what a store engine does with the rest of such a transaction is not
  modelled.
\<close>

definition atomic :: "'a io \<Rightarrow> 'a io" where
  "atomic body w =
     (case store_op w of
        (Inl e, w1) \<Rightarrow> (Inl e, w1)
      | (Inr _, w1) \<Rightarrow>
          (case body w1 of
             (Inl e, w2) \<Rightarrow> (Inl e, w2\<lparr>db := db w\<rparr>)
           | (Inr x, w2) \<Rightarrow>
               (case store_op w2 of
                  (Inl e, w3) \<Rightarrow> (Inl e, w3\<lparr>db := db w\<rparr>)
                | (Inr _, w3) \<Rightarrow> (Inr x, w3))))"

section \<open>Object-relational operations on orders\<close>

text \<open>
  A value outside ten digits does not fit \<open>DecimalField(max_digits=10, decimal_places=2)\<close>:
  preparing it for the store raises.
\<close>

definition fits_decimal :: "decimal2 \<Rightarrow> bool" where
  "fits_decimal v = (\<bar>v\<bar> < 10 ^ 10)"

text \<open>
  \<open>INSERT\<close> of an order, field by field: the total is prepared for its column, and the
  \<open>pre_save\<close> of the fields declared with \<open>auto_now_add=True\<close> (\<open>order_date\<close>, \<open>created_at\<close>)
  and \<open>auto_now=True\<close> (\<open>updated_at\<close>) replaces whatever the instance holds by the current
  time. A missing primary key is taken from the sequence; a primary key already in the table
  violates its uniqueness.
\<close>

definition insert_order :: "order \<Rightarrow> order io" where
  "insert_order self =
     (if \<not> fits_decimal (o_total_amount self) then raise InvalidOperation
      else
     and_then now (\<lambda>t1.
     and_then now (\<lambda>t2.
     and_then now (\<lambda>t3.
       let self1 = self\<lparr>o_order_date := Some t1, o_created_at := Some t2,
                        o_updated_at := Some t3\<rparr>
       in
     and_then store_op (\<lambda>_.
     and_then (get_db (\<lambda>d. d)) (\<lambda>d.
       let k = (case o_pk self1 of None \<Rightarrow> int (order_seq d) + 1 | Some k \<Rightarrow> k);
           self2 = self1\<lparr>o_pk := Some k\<rparr>
       in if \<exists>r \<in> set (orders d). o_pk r = Some k
          then raise (IntegrityError ''UNIQUE constraint failed: crm_order.id'')
          else
     and_then (set_db (\<lambda>d. d\<lparr>orders := orders d @ [self2],
                                order_seq := max (order_seq d) (nat k)\<rparr>)) (\<lambda>_.
       return self2)))))))"

text \<open>
  \<open>Model.save\<close> for an order (\<open>super().save(*args, **kwargs)\<close>). With \<open>force_insert\<close> or no
  primary key it inserts. Otherwise it tries an \<open>UPDATE\<close> of the rows with that primary key,
  whose \<open>pre_save\<close> refreshes \<open>updated_at\<close> only, and inserts when no row was updated.
\<close>

definition Model_save :: "bool \<Rightarrow> order \<Rightarrow> order io" where
  "Model_save force_insert self =
     (case o_pk self of
        None \<Rightarrow> insert_order self
      | Some k \<Rightarrow>
          if force_insert then insert_order self
          else
            and_then now (\<lambda>t.
              let self1 = self\<lparr>o_updated_at := Some t\<rparr>
              in if \<not> fits_decimal (o_total_amount self1) then raise InvalidOperation
                 else
            and_then store_op (\<lambda>_.
            and_then (get_db orders) (\<lambda>rows.
              if \<exists>r \<in> set rows. o_pk r = Some k
              then and_then (set_db (\<lambda>d. d\<lparr>orders :=
                       map (\<lambda>r. if o_pk r = Some k then self1 else r) (orders d)\<rparr>)) (\<lambda>_.
                     return self1)
              else insert_order self1))))"

text \<open>\<open>not self.pk\<close>: no primary key, or the falsy primary key \<open>0\<close>.\<close>

definition not_pk :: "int option \<Rightarrow> bool" where
  "not_pk pk = (case pk of None \<Rightarrow> True | Some k \<Rightarrow> k = 0)"

text \<open>
  \<open>Order.save\<close> (\<open>models.py\<close>, lines 63-67). The instance is mutated in place; the model
  returns it.
\<close>

definition Order_save :: "bool \<Rightarrow> order \<Rightarrow> order io" where
  "Order_save force_insert self =
     (let self1 = (if not_pk (o_pk self) then self\<lparr>o_total_amount := 0\<rparr> else self)
      in Model_save force_insert self1)"

text \<open>
  \<open>Order.objects.create(customer=..., total_amount=..., order_date=...)\<close>: build the instance
  and \<open>save(force_insert=True)\<close>.
\<close>

definition Order_objects_create :: "int \<Rightarrow> decimal2 \<Rightarrow> datetime \<Rightarrow> order io" where
  "Order_objects_create customer total_amount order_date =
     Order_save True
       \<lparr>o_pk = None, o_customer_id = customer, o_total_amount = total_amount,
        o_order_date = Some order_date, o_created_at = None, o_updated_at = None\<rparr>"

text \<open>
  \<open>order.products.all()\<close>: the product rows joined with the association table, one result row
  for each pair of a product row and an association row of this order that points to it.
\<close>

definition products_all :: "database \<Rightarrow> int \<Rightarrow> product list" where
  "products_all d k =
     concat (map (\<lambda>p. map (\<lambda>_. p) (filter (\<lambda>l. l = (k, p_id p)) (order_products d)))
                 (products d))"

text \<open>
  \<open>order.products.set(objs)\<close>: read the ids now associated, delete the associations that are
  not among \<open>objs\<close>, insert the missing ones. An instance without primary key cannot use the
  relation.
\<close>

definition products_set :: "order \<Rightarrow> product list \<Rightarrow> unit io" where
  "products_set self objs =
     (case o_pk self of
        None \<Rightarrow> raise (ValueError ''instance needs a primary key value'')
      | Some k \<Rightarrow>
          and_then store_op (\<lambda>_.
          and_then (get_db (\<lambda>d. map p_id (products_all d k))) (\<lambda>current.
            let old_ids = filter (\<lambda>i. i \<notin> set (map p_id objs)) current;
                new_ids = remdups (filter (\<lambda>i. i \<notin> set current) (map p_id objs))
            in
          and_then (if old_ids = [] then return () else store_op) (\<lambda>_.
          and_then (set_db (\<lambda>d. d\<lparr>order_products :=
                      filter (\<lambda>l. \<not> (fst l = k \<and> snd l \<in> set old_ids)) (order_products d)\<rparr>)) (\<lambda>_.
          and_then (if new_ids = [] then return () else store_op) (\<lambda>_.
            set_db (\<lambda>d. d\<lparr>order_products :=
                      order_products d @ map (\<lambda>i. (k, i)) new_ids\<rparr>)))))))"

text \<open>\<open>Order.calculate_total\<close> (\<open>models.py\<close>, lines 59-61): one query, then the sum.\<close>

definition calculate_total :: "order \<Rightarrow> decimal2 io" where
  "calculate_total self =
     (case o_pk self of
        None \<Rightarrow> raise (ValueError ''instance needs a primary key value'')
      | Some k \<Rightarrow>
          and_then store_op (\<lambda>_.
            get_db (\<lambda>d. sum_list (map p_price (products_all d k)))))"

text \<open>\<open>Order.update_total\<close> (\<open>models.py\<close>, lines 69-72).\<close>

definition update_total :: "order \<Rightarrow> order io" where
  "update_total self =
     and_then (calculate_total self) (\<lambda>total.
       Order_save False (self\<lparr>o_total_amount := total\<rparr>))"

section \<open>Creating an order\<close>

text \<open>
  A GraphQL \<open>ID\<close> arrives as text. The store compares it with integer keys: a numeral is read
  as its integer, anything else makes the lookup raise \<open>ValueError\<close>.
\<close>

datatype gid = IntID int | BadID string

text \<open>
  \<open>OrderInput\<close> (\<open>schema.py\<close>, lines 55-58). The elements of \<open>product_ids\<close> are nullable.
\<close>

record order_input =
  customer_id :: gid
  product_ids :: "gid option list"
  order_date :: "datetime option"

text \<open>\<open>OrderMutationResult\<close> (\<open>schema.py\<close>, lines 80-83).\<close>

record order_result =
  r_order :: "order option"
  r_message :: string
  r_success :: bool

definition to_int :: "gid \<Rightarrow> int io" where
  "to_int i =
     (case i of
        IntID k \<Rightarrow> return k
      | BadID t \<Rightarrow> raise (ValueError (''Field 'id' expected a number but got '' @ [CHR 0x27] @ t @
                     [CHR 0x27] @ ''.'')))"

text \<open>\<open>Customer.objects.get(id=...)\<close>.\<close>

definition Customer_objects_get :: "gid \<Rightarrow> customer io" where
  "Customer_objects_get i =
     and_then (to_int i) (\<lambda>k.
     and_then store_op (\<lambda>_.
     and_then (get_db (\<lambda>d. filter (\<lambda>c. c_id c = k) (customers d))) (\<lambda>rows.
       case rows of
         [] \<Rightarrow> raise DoesNotExist
       | [c] \<Rightarrow> return c
       | _ \<Rightarrow> raise MultipleObjectsReturned)))"

text \<open>
  Preparing the right-hand side of \<open>id__in\<close>: every element that is not null is converted,
  nulls are dropped.
\<close>

fun prep_ids :: "gid option list \<Rightarrow> int list io" where
  "prep_ids [] = return []"
| "prep_ids (None # is) = prep_ids is"
| "prep_ids (Some i # is) =
     and_then (to_int i) (\<lambda>k. and_then (prep_ids is) (\<lambda>ks. return (k # ks)))"

text \<open>
  \<open>Product.objects.filter(id__in=...)\<close>, evaluated once by \<open>len\<close> and then kept: the product
  rows whose id is one of the requested ones, each row once.
\<close>

definition Product_objects_filter_id_in :: "gid option list \<Rightarrow> product list io" where
  "Product_objects_filter_id_in is =
     and_then (prep_ids is) (\<lambda>ks.
     and_then store_op (\<lambda>_.
       get_db (\<lambda>d. filter (\<lambda>p. p_id p \<in> set ks) (products d))))"

text \<open>
  \<open>CreateOrder.mutate\<close> (\<open>schema.py\<close>, lines 237-289), in the order of the source: the inner
  \<open>try\<close> that resolves the customer (lines 240-247), the \<open>with transaction.atomic()\<close> block
  (lines 269-276), the body of the outer \<open>try\<close>, and the outer \<open>except Exception\<close>.
\<close>

definition failed :: "string \<Rightarrow> order_result" where
  "failed m = \<lparr>r_order = None, r_message = m, r_success = False\<rparr>"

definition resolve_customer :: "gid \<Rightarrow> customer option io" where
  "resolve_customer i =
     try_except
       (and_then (Customer_objects_get i) (\<lambda>c. return (Some c)))
       (\<lambda>e. if e = DoesNotExist then return None else raise e)"

definition create_block ::
    "customer \<Rightarrow> decimal2 \<Rightarrow> product list \<Rightarrow> datetime option \<Rightarrow> order io" where
  "create_block customer total_amount prods date_in =
     atomic
       (and_then (case date_in of Some d \<Rightarrow> return d | None \<Rightarrow> now) (\<lambda>date.
        and_then (Order_objects_create (c_id customer) total_amount date)
          (\<lambda>order.
        and_then (products_set order prods) (\<lambda>_.
          update_total order))))"

definition CreateOrder_body :: "order_input \<Rightarrow> order_result io" where
  "CreateOrder_body inp =
     and_then (resolve_customer (customer_id inp)) (\<lambda>found.
       case found of
         None \<Rightarrow> return (failed ''Invalid customer ID'')
       | Some customer \<Rightarrow>
           if product_ids inp = [] then return (failed ''At least one product is required'')
           else
             and_then (Product_objects_filter_id_in (product_ids inp)) (\<lambda>prods.
               if length prods \<noteq> length (product_ids inp)
               then return (failed ''One or more invalid product IDs'')
               else
                 let total_amount = sum_list (map p_price prods) in
                 and_then (create_block customer total_amount prods (order_date inp)) (\<lambda>order.
                   return \<lparr>r_order = Some order,
                           r_message = ''Order created successfully'',
                           r_success = True\<rparr>)))"

definition CreateOrder_mutate :: "order_input \<Rightarrow> order_result io" where
  "CreateOrder_mutate inp =
     try_except (CreateOrder_body inp)
       (\<lambda>e. return (failed (''Error creating order: '' @ str_exn e)))"

section \<open>Phone numbers\<close>

text \<open>
  Regular expressions as far as the phone pattern uses them: a literal character, \<open>\d\<close>,
  sequence, alternative and bounded repetition \<open>r{m,n}\<close>.
\<close>

datatype regex =
    Lit nat
  | Digit
  | Seq regex regex
  | Alt regex regex
  | Rep nat nat regex

text \<open>
  \<open>rounds f m n s\<close>: the rests of \<open>s\<close> after between \<open>m\<close> and \<open>n\<close> rounds of \<open>f\<close>.
\<close>

primrec rounds :: "(pystr \<Rightarrow> pystr list) \<Rightarrow> nat \<Rightarrow> nat \<Rightarrow> pystr \<Rightarrow> pystr list" where
  "rounds f m 0 s = (if m = 0 then [s] else [])"
| "rounds f m (Suc n) s =
     (if m = 0 then [s] else []) @ concat (map (rounds f (m - 1) n) (f s))"

text \<open>
  \<open>run decimal r s\<close>: every way the backtracking matcher can match \<open>r\<close> at the start of
  \<open>s\<close>, given by what is left of \<open>s\<close>. The pattern is a \<open>str\<close> pattern compiled without
  \<open>re.ASCII\<close>, so \<open>\d\<close> matches every character that the Unicode database of the interpreter
  lists as a decimal digit, in any script. That table belongs to the interpreter and grows
  with its version: it is the parameter \<open>decimal\<close>, a predicate on code points.
\<close>

fun run :: "(nat \<Rightarrow> bool) \<Rightarrow> regex \<Rightarrow> pystr \<Rightarrow> pystr list" where
  "run decimal (Lit c) s = (case s of [] \<Rightarrow> [] | x # xs \<Rightarrow> if x = c then [xs] else [])"
| "run decimal Digit s = (case s of [] \<Rightarrow> [] | x # xs \<Rightarrow> if decimal x then [xs] else [])"
| "run decimal (Seq a b) s = concat (map (run decimal b) (run decimal a s))"
| "run decimal (Alt a b) s = run decimal a s @ run decimal b s"
| "run decimal (Rep m n r) s = rounds (\<lambda>t. run decimal r t) m n s"

text \<open>
  \<open>re.match(r'^(r)$', s)\<close>: the match starts at the beginning of \<open>s\<close>, and \<open>$\<close> holds at the
  end of \<open>s\<close> and just before a newline (code point 10) that ends \<open>s\<close>.
\<close>

definition at_end :: "pystr \<Rightarrow> bool" where
  "at_end rest = (rest = [] \<or> rest = [10])"

definition re_match_anchored :: "(nat \<Rightarrow> bool) \<Rightarrow> regex \<Rightarrow> pystr \<Rightarrow> bool" where
  "re_match_anchored decimal r s = (\<exists>rest \<in> set (run decimal r s). at_end rest)"

text \<open>The two formats: \<open>\+\d{1,3}\d{9,10}\<close> and \<open>\d{3}-\d{3}-\d{4}\<close>.\<close>

definition international :: regex where
  "international = Seq (Lit (of_char (CHR ''+''))) (Seq (Rep 1 3 Digit) (Rep 9 10 Digit))"

definition dashed :: regex where
  "dashed =
     Seq (Rep 3 3 Digit) (Seq (Lit (of_char (CHR ''-''))) (Seq (Rep 3 3 Digit)
       (Seq (Lit (of_char (CHR ''-''))) (Rep 4 4 Digit))))"

text \<open>
  \<open>phone_pattern = r'^(\+\d{1,3}\d{9,10}|\d{3}-\d{3}-\d{4})$'\<close> (\<open>schema.py\<close>, lines 105 and 155).
\<close>

definition phone_pattern :: regex where
  "phone_pattern = Alt international dashed"

section \<open>Creating customers\<close>

text \<open>\<open>CustomerInput\<close> (\<open>schema.py\<close>, lines 43-46) and \<open>CustomerMutationResult\<close> (lines 62-65).\<close>

record customer_input =
  in_name :: string
  in_email :: string
  in_phone :: "pystr option"

record customer_result =
  cr_customer :: "customer option"
  cr_message :: string
  cr_success :: bool

text \<open>\<open>Customer.objects.filter(email=...).exists()\<close>.\<close>

definition email_exists :: "string \<Rightarrow> bool io" where
  "email_exists e =
     and_then store_op (\<lambda>_. get_db (\<lambda>d. \<exists>c \<in> set (customers d). c_email c = e))"

text \<open>
  \<open>Customer.objects.create(name=..., email=..., phone=...)\<close>: \<open>created_at\<close> and \<open>updated_at\<close>
  are read from the clock, the id comes from the sequence, and \<open>email\<close> is unique.
\<close>

definition Customer_objects_create :: "string \<Rightarrow> string \<Rightarrow> pystr option \<Rightarrow> customer io" where
  "Customer_objects_create name email phone =
     and_then now (\<lambda>t1.
     and_then now (\<lambda>t2.
     and_then store_op (\<lambda>_.
     and_then (get_db (\<lambda>d. d)) (\<lambda>d.
       let c = \<lparr>c_id = int (customer_seq d) + 1, c_name = name, c_email = email,
                c_phone = phone, c_created_at = t1, c_updated_at = t2\<rparr>
       in if \<exists>r \<in> set (customers d). c_email r = email
          then raise (IntegrityError ''UNIQUE constraint failed: crm_customer.email'')
          else
     and_then (set_db (\<lambda>d. d\<lparr>customers := customers d @ [c],
                                customer_seq := Suc (customer_seq d)\<rparr>)) (\<lambda>_.
       return c)))))"

text \<open>
  \<open>if input.phone: ... if not re.match(phone_pattern, input.phone)\<close> (lines 104-106 and
  154-156): an absent or empty phone is falsy and is not looked at.
\<close>

definition phone_rejected :: "(nat \<Rightarrow> bool) \<Rightarrow> pystr option \<Rightarrow> bool" where
  "phone_rejected decimal phone =
     (case phone of
        None \<Rightarrow> False
      | Some p \<Rightarrow> p \<noteq> [] \<and> \<not> re_match_anchored decimal phone_pattern p)"

text \<open>The result of lines 107-111: the request is turned down for the format of its phone.\<close>

definition phone_format_failure :: customer_result where
  "phone_format_failure =
     \<lparr>cr_customer = None,
      cr_message = ''Phone must be in format '+1234567890' or '123-456-7890'' @ [CHR 0x27],
      cr_success = False\<rparr>"

text \<open>
  \<open>CreateCustomer.mutate\<close> (\<open>schema.py\<close>, lines 93-131), for the interpreter's table
  \<open>decimal\<close> of decimal digits.
\<close>

definition CreateCustomer_body :: "(nat \<Rightarrow> bool) \<Rightarrow> customer_input \<Rightarrow> customer_result io" where
  "CreateCustomer_body decimal inp =
     and_then (email_exists (in_email inp)) (\<lambda>exists.
       if exists then
         return \<lparr>cr_customer = None, cr_message = ''Email already exists'',
                 cr_success = False\<rparr>
       else if phone_rejected decimal (in_phone inp) then return phone_format_failure
       else
         and_then (Customer_objects_create (in_name inp) (in_email inp) (in_phone inp)) (\<lambda>c.
           return \<lparr>cr_customer = Some c, cr_message = ''Customer created successfully'',
                   cr_success = True\<rparr>))"

definition CreateCustomer_mutate :: "(nat \<Rightarrow> bool) \<Rightarrow> customer_input \<Rightarrow> customer_result io" where
  "CreateCustomer_mutate decimal inp =
     try_except (CreateCustomer_body decimal inp)
       (\<lambda>e. return \<lparr>cr_customer = None,
                    cr_message = ''Error creating customer: '' @ str_exn e,
                    cr_success = False\<rparr>)"

text \<open>\<open>BulkCustomerMutationResult\<close> (\<open>schema.py\<close>, lines 68-71).\<close>

record bulk_result =
  b_customers :: "customer list"
  b_errors :: "string list"
  b_success :: bool

text \<open>\<open>str\<close> of a natural number, for \<open>f"Customer {i+1}: ..."\<close>.\<close>

fun str_nat :: "nat \<Rightarrow> string" where
  "str_nat n =
     (if n < 10 then [char_of (48 + n)]
      else str_nat (n div 10) @ [char_of (48 + n mod 10)])"

text \<open>
  One round of the loop of \<open>BulkCreateCustomers.mutate\<close> (lines 147-169): the item is either
  turned down with an error string, also when something raises, or created.
\<close>

datatype outcome = Rejected string | Created customer

definition bulk_item :: "(nat \<Rightarrow> bool) \<Rightarrow> nat \<Rightarrow> customer_input \<Rightarrow> outcome io" where
  "bulk_item decimal i data =
     try_except
       (and_then (email_exists (in_email data)) (\<lambda>exists.
          if exists then
            return (Rejected (''Customer '' @ str_nat (i + 1) @ '': Email already exists''))
          else if phone_rejected decimal (in_phone data) then
            return (Rejected (''Customer '' @ str_nat (i + 1) @ '': Invalid phone format''))
          else
            and_then (Customer_objects_create (in_name data) (in_email data) (in_phone data))
              (\<lambda>c. return (Created c))))
       (\<lambda>e. return (Rejected (''Customer '' @ str_nat (i + 1) @ '': '' @ str_exn e)))"

text \<open>
  \<open>for i, customer_data in enumerate(input)\<close>, with the two lists \<open>created_customers\<close> and
  \<open>errors\<close> that the rounds append to.
\<close>

fun bulk_loop :: "(nat \<Rightarrow> bool) \<Rightarrow> nat \<Rightarrow> customer_input list \<Rightarrow> customer list \<Rightarrow>
    string list \<Rightarrow> (customer list \<times> string list) io" where
  "bulk_loop decimal i [] created errors = return (created, errors)"
| "bulk_loop decimal i (data # rest) created errors =
     and_then (bulk_item decimal i data) (\<lambda>out.
       case out of
         Rejected m \<Rightarrow> bulk_loop decimal (Suc i) rest created (errors @ [m])
       | Created c \<Rightarrow> bulk_loop decimal (Suc i) rest (created @ [c]) errors)"

text \<open>
  \<open>BulkCreateCustomers.mutate\<close> (\<open>schema.py\<close>, lines 140-182), for the interpreter's table
  \<open>decimal\<close> of decimal digits.
\<close>

definition BulkCreateCustomers_mutate ::
    "(nat \<Rightarrow> bool) \<Rightarrow> customer_input list \<Rightarrow> bulk_result io" where
  "BulkCreateCustomers_mutate decimal inp =
     try_except
       (and_then (atomic (bulk_loop decimal 0 inp [] [])) (\<lambda>(created, errors).
          return \<lparr>b_customers = created, b_errors = errors,
                  b_success = (length created > 0)\<rparr>))
       (\<lambda>e. return \<lparr>b_customers = [], b_errors = [''Transaction failed: '' @ str_exn e],
                    b_success = False\<rparr>)"

section \<open>Creating a product\<close>

text \<open>
  A GraphQL \<open>Float\<close>. A finite float is given by the decimal number that \<open>str\<close> prints for
  it, which is what \<open>Decimal(str(input.price))\<close> reads back and which compares with zero as
  the float does.
\<close>

datatype pyfloat = Finite rat | PosInf | NegInf | NaN

text \<open>\<open>Decimal(str(x))\<close> has the value of \<open>x\<close>, finite or not.\<close>

type_synonym pydecimal = pyfloat

text \<open>\<open>ProductInput\<close> (\<open>schema.py\<close>, lines 49-52) and \<open>ProductMutationResult\<close> (lines 74-77).\<close>

record product_input =
  pin_name :: string
  pin_price :: pyfloat
  pin_stock :: "int option"

text \<open>
  The instance that \<open>create\<close> returns: the row as stored and the \<open>price\<close> attribute as the
  instance holds it, which is the \<open>Decimal\<close> it was given, not rounded to the column.
\<close>

record product_object =
  po_row :: product
  po_price :: pydecimal

record product_result =
  pr_product :: "product_object option"
  pr_message :: string
  pr_success :: bool

text \<open>\<open>input.price <= 0\<close> on floats: false for \<open>nan\<close>.\<close>

definition le_zero :: "pyfloat \<Rightarrow> bool" where
  "le_zero x = (case x of Finite q \<Rightarrow> q \<le> 0 | PosInf \<Rightarrow> False | NegInf \<Rightarrow> True | NaN \<Rightarrow> False)"

text \<open>Rounding to an integer, ties to the even one (the default of \<open>quantize\<close>).\<close>

definition round_half_even :: "rat \<Rightarrow> int" where
  "round_half_even q =
     (let f = \<lfloor>q\<rfloor>; d = q - of_int f
      in if d < 1 / 2 then f
         else if 1 / 2 < d then f + 1
         else if even f then f else f + 1)"

text \<open>
  Preparing \<open>Decimal(str(price))\<close> for the \<open>price\<close> column: a value that is not finite is
  turned down, a finite one is rounded to two places and must fit ten digits.
\<close>

definition prep_price :: "pydecimal \<Rightarrow> decimal2 io" where
  "prep_price x =
     (case x of
        Finite q \<Rightarrow>
          let v = round_half_even (q * 100)
          in if fits_decimal v then return v else raise InvalidOperation
      | _ \<Rightarrow> raise (ValidationError ''value must be a decimal number''))"

text \<open>\<open>Product.objects.create(name=..., price=Decimal(str(input.price)), stock=stock)\<close>.\<close>

definition Product_objects_create :: "string \<Rightarrow> pydecimal \<Rightarrow> nat \<Rightarrow> product_object io" where
  "Product_objects_create name price stock =
     and_then (prep_price price) (\<lambda>v.
     and_then now (\<lambda>t1.
     and_then now (\<lambda>t2.
     and_then store_op (\<lambda>_.
     and_then (get_db (\<lambda>d. d)) (\<lambda>d.
       let p = \<lparr>p_id = int (product_seq d) + 1, p_name = name, p_price = v,
                p_stock = stock, p_created_at = t1, p_updated_at = t2\<rparr>
       in
     and_then (set_db (\<lambda>d. d\<lparr>products := products d @ [p],
                                product_seq := Suc (product_seq d)\<rparr>)) (\<lambda>_.
       return \<lparr>po_row = p, po_price = price\<rparr>))))))"

text \<open>\<open>CreateProduct.mutate\<close> (\<open>schema.py\<close>, lines 191-228).\<close>

definition CreateProduct_body :: "product_input \<Rightarrow> product_result io" where
  "CreateProduct_body inp =
     (if le_zero (pin_price inp) then
        return \<lparr>pr_product = None, pr_message = ''Price must be positive'',
                pr_success = False\<rparr>
      else
        let stock = (case pin_stock inp of Some n \<Rightarrow> n | None \<Rightarrow> 0)
        in if stock < 0 then
             return \<lparr>pr_product = None, pr_message = ''Stock cannot be negative'',
                     pr_success = False\<rparr>
           else
             and_then (Product_objects_create (pin_name inp) (pin_price inp) (nat stock)) (\<lambda>p.
               return \<lparr>pr_product = Some p, pr_message = ''Product created successfully'',
                       pr_success = True\<rparr>))"

definition CreateProduct_mutate :: "product_input \<Rightarrow> product_result io" where
  "CreateProduct_mutate inp =
     try_except (CreateProduct_body inp)
       (\<lambda>e. return \<lparr>pr_product = None,
                    pr_message = ''Error creating product: '' @ str_exn e,
                    pr_success = False\<rparr>)"

section \<open>Filters\<close>

text \<open>
  The filter sets of \<open>crm/filters.py\<close> for products and orders. A filter value is \<open>None\<close>
  when its key is absent; otherwise it is the value as cleaned and prepared for its column
  (a price or total in hundredths). Results are listed in table order; \<open>ORDER BY\<close> is left
  out.
\<close>

definition lower :: "char \<Rightarrow> char" where
  "lower c =
     (case map_of (zip ''ABCDEFGHIJKLMNOPQRSTUVWXYZ'' ''abcdefghijklmnopqrstuvwxyz'') c of
        None \<Rightarrow> c
      | Some l \<Rightarrow> l)"

fun starts_with :: "string \<Rightarrow> string \<Rightarrow> bool" where
  "starts_with s [] = True"
| "starts_with [] (y # ys) = False"
| "starts_with (x # xs) (y # ys) = (x = y \<and> starts_with xs ys)"

fun contains :: "string \<Rightarrow> string \<Rightarrow> bool" where
  "contains [] v = (v = [])"
| "contains (x # xs) v = (starts_with (x # xs) v \<or> contains xs v)"

text \<open>The lookup \<open>icontains\<close>: \<open>v\<close> occurs in \<open>s\<close>, letters compared without case.\<close>

definition icontains :: "string \<Rightarrow> string \<Rightarrow> bool" where
  "icontains s v = contains (map lower s) (map lower v)"

text \<open>Comparing two \<open>datetime\<close>s.\<close>

definition dt_key :: "datetime \<Rightarrow> nat list" where
  "dt_key t = [dt_year t, dt_month t, dt_day t, dt_micros t]"

fun key_le :: "nat list \<Rightarrow> nat list \<Rightarrow> bool" where
  "key_le [] ys = True"
| "key_le (x # xs) [] = False"
| "key_le (x # xs) (y # ys) = (x < y \<or> (x = y \<and> key_le xs ys))"

definition dt_le :: "datetime \<Rightarrow> datetime \<Rightarrow> bool" where
  "dt_le a b = key_le (dt_key a) (dt_key b)"

text \<open>
  \<open>Filter.filter\<close>: an absent value leaves the queryset as it is, a present one restricts
  it to the rows that satisfy the lookup. \<open>CharFilter\<close>: the empty string counts as absent.
\<close>

definition restrict :: "'v option \<Rightarrow> ('v \<Rightarrow> 'r \<Rightarrow> bool) \<Rightarrow> 'r list \<Rightarrow> 'r list" where
  "restrict value lookup qs = (case value of None \<Rightarrow> qs | Some v \<Rightarrow> filter (lookup v) qs)"

definition nonempty :: "string option \<Rightarrow> string option" where
  "nonempty value = (case value of None \<Rightarrow> None | Some v \<Rightarrow> if v = [] then None else Some v)"

text \<open>
  A filter declared with \<open>method=...\<close>: the method is called with the queryset, the name of
  the field and the value, unless the value is absent.
\<close>

definition by_method :: "'v option \<Rightarrow> string \<Rightarrow> ('q \<Rightarrow> string \<Rightarrow> 'v \<Rightarrow> 'q) \<Rightarrow> 'q \<Rightarrow> 'q" where
  "by_method value name method qs =
     (case value of None \<Rightarrow> qs | Some v \<Rightarrow> method qs name v)"

subsection \<open>Products\<close>

text \<open>
  The keys of \<open>ProductFilter\<close>: those that \<open>Meta.fields\<close> (lines 52-57) generates, in its
  order and with the declared filter where one has the same name (\<open>name\<close> is \<open>icontains\<close>),
  and then \<open>low_stock\<close>.
\<close>

record product_filter =
  pf_name :: "string option"
  pf_name_icontains :: "string option"
  pf_price :: "decimal2 option"
  pf_price_gte :: "decimal2 option"
  pf_price_lte :: "decimal2 option"
  pf_price_gt :: "decimal2 option"
  pf_price_lt :: "decimal2 option"
  pf_stock :: "int option"
  pf_stock_gte :: "int option"
  pf_stock_lte :: "int option"
  pf_stock_gt :: "int option"
  pf_stock_lt :: "int option"
  pf_created_at :: "datetime option"
  pf_created_at_gte :: "datetime option"
  pf_created_at_lte :: "datetime option"
  pf_created_at_year :: "nat option"
  pf_created_at_month :: "nat option"
  pf_created_at_day :: "nat option"
  pf_low_stock :: "bool option"

text \<open>\<open>ProductFilter.filter_low_stock\<close> (\<open>filters.py\<close>, lines 44-48).\<close>

definition filter_low_stock :: "product list \<Rightarrow> string \<Rightarrow> bool \<Rightarrow> product list" where
  "filter_low_stock queryset name value =
     (if value then filter (\<lambda>p. p_stock p < 10) queryset else queryset)"

text \<open>All filters of a product query but \<open>low_stock\<close>, one after the other.\<close>

definition ProductFilter_fields :: "product_filter \<Rightarrow> product list \<Rightarrow> product list" where
  "ProductFilter_fields f qs =
     foldl (\<lambda>q step. step q) qs
       [restrict (nonempty (pf_name f)) (\<lambda>v p. icontains (p_name p) v),
        restrict (nonempty (pf_name_icontains f)) (\<lambda>v p. icontains (p_name p) v),
        restrict (pf_price f) (\<lambda>v p. p_price p = v),
        restrict (pf_price_gte f) (\<lambda>v p. v \<le> p_price p),
        restrict (pf_price_lte f) (\<lambda>v p. p_price p \<le> v),
        restrict (pf_price_gt f) (\<lambda>v p. v < p_price p),
        restrict (pf_price_lt f) (\<lambda>v p. p_price p < v),
        restrict (pf_stock f) (\<lambda>v p. int (p_stock p) = v),
        restrict (pf_stock_gte f) (\<lambda>v p. v \<le> int (p_stock p)),
        restrict (pf_stock_lte f) (\<lambda>v p. int (p_stock p) \<le> v),
        restrict (pf_stock_gt f) (\<lambda>v p. v < int (p_stock p)),
        restrict (pf_stock_lt f) (\<lambda>v p. int (p_stock p) < v),
        restrict (pf_created_at f) (\<lambda>v p. p_created_at p = v),
        restrict (pf_created_at_gte f) (\<lambda>v p. dt_le v (p_created_at p)),
        restrict (pf_created_at_lte f) (\<lambda>v p. dt_le (p_created_at p) v),
        restrict (pf_created_at_year f) (\<lambda>v p. dt_year (p_created_at p) = v),
        restrict (pf_created_at_month f) (\<lambda>v p. dt_month (p_created_at p) = v),
        restrict (pf_created_at_day f) (\<lambda>v p. dt_day (p_created_at p) = v)]"

text \<open>The queryset of a product query: the filters in the order of their keys.\<close>

definition ProductFilter_qs :: "product_filter \<Rightarrow> product list \<Rightarrow> product list" where
  "ProductFilter_qs f qs =
     by_method (pf_low_stock f) ''low_stock'' filter_low_stock (ProductFilter_fields f qs)"

subsection \<open>Orders\<close>

text \<open>
  An order queryset: the rows that the joins made so far yield, and whether \<open>distinct()\<close> was
  called on it. Evaluating it drops repeated rows only in that case.
\<close>

record order_queryset =
  qs_rows :: "order list"
  qs_distinct :: bool

definition evaluate :: "order_queryset \<Rightarrow> order list" where
  "evaluate qs = (if qs_distinct qs then remdups (qs_rows qs) else qs_rows qs)"

text \<open>\<open>queryset.filter(<lookup on a column of the order>)\<close>.\<close>

definition where_order :: "'v option \<Rightarrow> ('v \<Rightarrow> order \<Rightarrow> bool) \<Rightarrow> order_queryset \<Rightarrow> order_queryset" where
  "where_order value lookup qs = qs\<lparr>qs_rows := restrict value lookup (qs_rows qs)\<rparr>"

text \<open>
  \<open>queryset.filter(<lookup through a relation>)\<close>: the rows are joined with the related table,
  and an order comes once for every related row that satisfies the lookup.
\<close>

definition join_where :: "'v option \<Rightarrow> (order \<Rightarrow> 'r list) \<Rightarrow> ('v \<Rightarrow> 'r \<Rightarrow> bool) \<Rightarrow>
    order_queryset \<Rightarrow> order_queryset" where
  "join_where value related lookup qs =
     (case value of
        None \<Rightarrow> qs
      | Some v \<Rightarrow>
          qs\<lparr>qs_rows := concat (map (\<lambda>row. map (\<lambda>_. row) (filter (lookup v) (related row)))
                                   (qs_rows qs))\<rparr>)"

text \<open>The customer of an order and the products of an order, as the joins see them.\<close>

definition customer_of :: "database \<Rightarrow> order \<Rightarrow> customer list" where
  "customer_of d row = filter (\<lambda>c. c_id c = o_customer_id row) (customers d)"

definition products_of :: "database \<Rightarrow> order \<Rightarrow> product list" where
  "products_of d row = (case o_pk row of None \<Rightarrow> [] | Some k \<Rightarrow> products_all d k)"

text \<open>
  The keys of \<open>OrderFilter\<close>: those that \<open>Meta.fields\<close> (lines 85-90) generates, then the
  declared \<open>customer_name\<close>, \<open>customer_email\<close>, \<open>product_name\<close> and \<open>product_id\<close>.
\<close>

record order_filter =
  of_total_amount :: "decimal2 option"
  of_total_amount_gte :: "decimal2 option"
  of_total_amount_lte :: "decimal2 option"
  of_total_amount_gt :: "decimal2 option"
  of_total_amount_lt :: "decimal2 option"
  of_order_date :: "datetime option"
  of_order_date_gte :: "datetime option"
  of_order_date_lte :: "datetime option"
  of_order_date_year :: "nat option"
  of_order_date_month :: "nat option"
  of_order_date_day :: "nat option"
  of_customer :: "int option"
  of_created_at :: "datetime option"
  of_created_at_gte :: "datetime option"
  of_created_at_lte :: "datetime option"
  of_created_at_year :: "nat option"
  of_created_at_month :: "nat option"
  of_created_at_day :: "nat option"
  of_customer_name :: "string option"
  of_customer_email :: "string option"
  of_product_name :: "string option"
  of_product_id :: "int option"

text \<open>A lookup on a nullable time: no row with a null satisfies it.\<close>

definition on_time :: "(datetime \<Rightarrow> bool) \<Rightarrow> datetime option \<Rightarrow> bool" where
  "on_time P t = (case t of None \<Rightarrow> False | Some x \<Rightarrow> P x)"

text \<open>\<open>OrderFilter.filter_by_product_id\<close> (\<open>filters.py\<close>, lines 77-81).\<close>

definition filter_by_product_id ::
    "database \<Rightarrow> order_queryset \<Rightarrow> string \<Rightarrow> int \<Rightarrow> order_queryset" where
  "filter_by_product_id d queryset name value =
     (if value \<noteq> 0
      then (join_where (Some value) (products_of d) (\<lambda>v p. p_id p = v) queryset)
             \<lparr>qs_distinct := True\<rparr>
      else queryset)"

text \<open>The queryset of an order query: the filters in the order of their keys.\<close>

definition OrderFilter_qs :: "database \<Rightarrow> order_filter \<Rightarrow> order_queryset \<Rightarrow> order_queryset" where
  "OrderFilter_qs d f qs =
     foldl (\<lambda>q step. step q) qs
       [where_order (of_total_amount f) (\<lambda>v r. o_total_amount r = v),
        where_order (of_total_amount_gte f) (\<lambda>v r. v \<le> o_total_amount r),
        where_order (of_total_amount_lte f) (\<lambda>v r. o_total_amount r \<le> v),
        where_order (of_total_amount_gt f) (\<lambda>v r. v < o_total_amount r),
        where_order (of_total_amount_lt f) (\<lambda>v r. o_total_amount r < v),
        where_order (of_order_date f) (\<lambda>v r. o_order_date r = Some v),
        where_order (of_order_date_gte f) (\<lambda>v r. on_time (dt_le v) (o_order_date r)),
        where_order (of_order_date_lte f) (\<lambda>v r. on_time (\<lambda>t. dt_le t v) (o_order_date r)),
        where_order (of_order_date_year f) (\<lambda>v r. on_time (\<lambda>t. dt_year t = v) (o_order_date r)),
        where_order (of_order_date_month f)
          (\<lambda>v r. on_time (\<lambda>t. dt_month t = v) (o_order_date r)),
        where_order (of_order_date_day f) (\<lambda>v r. on_time (\<lambda>t. dt_day t = v) (o_order_date r)),
        where_order (of_customer f) (\<lambda>v r. o_customer_id r = v),
        where_order (of_created_at f) (\<lambda>v r. o_created_at r = Some v),
        where_order (of_created_at_gte f) (\<lambda>v r. on_time (dt_le v) (o_created_at r)),
        where_order (of_created_at_lte f) (\<lambda>v r. on_time (\<lambda>t. dt_le t v) (o_created_at r)),
        where_order (of_created_at_year f) (\<lambda>v r. on_time (\<lambda>t. dt_year t = v) (o_created_at r)),
        where_order (of_created_at_month f)
          (\<lambda>v r. on_time (\<lambda>t. dt_month t = v) (o_created_at r)),
        where_order (of_created_at_day f) (\<lambda>v r. on_time (\<lambda>t. dt_day t = v) (o_created_at r)),
        join_where (nonempty (of_customer_name f)) (customer_of d)
          (\<lambda>v c. icontains (c_name c) v),
        join_where (nonempty (of_customer_email f)) (customer_of d)
          (\<lambda>v c. icontains (c_email c) v),
        join_where (nonempty (of_product_name f)) (products_of d)
          (\<lambda>v p. icontains (p_name p) v),
        by_method (of_product_id f) ''product_id'' (filter_by_product_id d)]"

text \<open>The orders that a query with the filter map \<open>f\<close> lists.\<close>

definition query_orders :: "database \<Rightarrow> order_filter \<Rightarrow> order list" where
  "query_orders d f =
     evaluate (OrderFilter_qs d f \<lparr>qs_rows = orders d, qs_distinct = False\<rparr>)"

section \<open>Notions of the specification\<close>

text \<open>
  A requested product id resolves when it is a number and the id of a product row.
\<close>

definition resolves :: "database \<Rightarrow> gid option \<Rightarrow> bool" where
  "resolves d i =
     (case i of
        Some (IntID k) \<Rightarrow> (\<exists>p \<in> set (products d). p_id p = k)
      | _ \<Rightarrow> False)"

text \<open>
  The items of a batch that pass validation, in the words of the specification: an item
  fails when its email is taken, by a customer of the store or by an item of the batch that
  passed before it, or when its phone has neither format.
\<close>

fun passing :: "(nat \<Rightarrow> bool) \<Rightarrow> string list \<Rightarrow> customer_input list \<Rightarrow> customer_input list" where
  "passing decimal taken [] = []"
| "passing decimal taken (x # xs) =
     (if in_email x \<in> set taken \<or> phone_rejected decimal (in_phone x)
      then passing decimal taken xs
      else x # passing decimal (taken @ [in_email x]) xs)"

text \<open>What a stored customer holds of a request, and what a request asks for.\<close>

definition as_stored :: "customer \<Rightarrow> string \<times> string \<times> pystr option" where
  "as_stored c = (c_name c, c_email c, c_phone c)"

definition as_asked :: "customer_input \<Rightarrow> string \<times> string \<times> pystr option" where
  "as_asked x = (in_name x, in_email x, in_phone x)"

section \<open>A store and requests to run\<close>

text \<open>The code points of a literal of ASCII characters.\<close>

definition codes :: "string \<Rightarrow> pystr" where
  "codes s = map of_char s"

text \<open>
  A table of decimal digits: that of Unicode 14.0, the database of CPython 3.11. Every script
  has its ten digits in a row; the list holds the zero of each.
\<close>

definition unicode_zeros :: "nat list" where
  "unicode_zeros =
     [0x30, 0x660, 0x6F0, 0x7C0, 0x966, 0x9E6, 0xA66, 0xAE6, 0xB66, 0xBE6, 0xC66, 0xCE6,
      0xD66, 0xDE6, 0xE50, 0xED0, 0xF20, 0x1040, 0x1090, 0x17E0, 0x1810, 0x1946, 0x19D0,
      0x1A80, 0x1A90, 0x1B50, 0x1BB0, 0x1C40, 0x1C50, 0xA620, 0xA8D0, 0xA900, 0xA9D0,
      0xA9F0, 0xAA50, 0xABF0, 0xFF10, 0x104A0, 0x10D30, 0x11066, 0x110F0, 0x11136,
      0x111D0, 0x112F0, 0x11450, 0x114D0, 0x11650, 0x116C0, 0x11730, 0x118E0, 0x11950,
      0x11C50, 0x11D50, 0x11DA0, 0x16A60, 0x16AC0, 0x16B50, 0x1D7CE, 0x1D7D8, 0x1D7E2,
      0x1D7EC, 0x1D7F6, 0x1E140, 0x1E2F0, 0x1E950, 0x1FBF0]"

definition unicode_decimal :: "nat \<Rightarrow> bool" where
  "unicode_decimal n = (\<exists>z \<in> set unicode_zeros. z \<le> n \<and> n < z + 10)"

definition ex_time :: datetime where
  "ex_time = \<lparr>dt_year = 2024, dt_month = 5, dt_day = 17, dt_micros = 0\<rparr>"

text \<open>
  One customer and three products: the prices of the specification's fourth scenario and the
  stocks of its sixth.
\<close>

definition ex_db :: database where
  "ex_db =
     \<lparr>customers = [\<lparr>c_id = 1, c_name = ''Ana'', c_email = ''a@x.com'',
                     c_phone = Some (codes ''+14155550100''),
                     c_created_at = ex_time, c_updated_at = ex_time\<rparr>],
      products = [\<lparr>p_id = 1, p_name = ''Pen'', p_price = 1000, p_stock = 5,
                    p_created_at = ex_time, p_updated_at = ex_time\<rparr>,
                  \<lparr>p_id = 2, p_name = ''Pencil'', p_price = 550, p_stock = 12,
                    p_created_at = ex_time, p_updated_at = ex_time\<rparr>,
                  \<lparr>p_id = 3, p_name = ''Eraser'', p_price = 125, p_stock = 9,
                    p_created_at = ex_time, p_updated_at = ex_time\<rparr>],
      orders = [], order_products = [],
      customer_seq = 1, product_seq = 3, order_seq = 0\<rparr>"

text \<open>A world without faults whose clock shows the number of the read.\<close>

definition ex_world :: world where
  "ex_world = \<lparr>db = ex_db, tick = 0, fault = (\<lambda>_. None),
                clock = (\<lambda>n. ex_time\<lparr>dt_micros := n\<rparr>)\<rparr>"

text \<open>A world whose store is down.\<close>

definition ex_down :: world where
  "ex_down = ex_world\<lparr>fault := (\<lambda>_. Some ''connection lost'')\<rparr>"

definition ex_order_input :: order_input where
  "ex_order_input =
     \<lparr>customer_id = IntID 1, product_ids = [Some (IntID 1), Some (IntID 2)],
      order_date = None\<rparr>"

text \<open>The same request with a product id that no row has.\<close>

definition ex_order_unknown :: order_input where
  "ex_order_unknown = ex_order_input\<lparr>product_ids := [Some (IntID 1), Some (IntID 99)]\<rparr>"

text \<open>A request that names the product 1 twice.\<close>

definition ex_order_twice :: order_input where
  "ex_order_twice = ex_order_input\<lparr>product_ids := [Some (IntID 1), Some (IntID 1)]\<rparr>"

text \<open>A request with an order date of its own.\<close>

definition ex_date :: datetime where
  "ex_date = \<lparr>dt_year = 2020, dt_month = 1, dt_day = 1, dt_micros = 0\<rparr>"

definition ex_order_dated :: order_input where
  "ex_order_dated = ex_order_input\<lparr>order_date := Some ex_date\<rparr>"

text \<open>A store with one order of both products.\<close>

definition ex_order :: order where
  "ex_order =
     \<lparr>o_pk = Some 1, o_customer_id = 1, o_total_amount = 1550,
      o_order_date = Some ex_time, o_created_at = Some ex_time,
      o_updated_at = Some ex_time\<rparr>"

definition ex_db_ordered :: database where
  "ex_db_ordered = ex_db\<lparr>orders := [ex_order], order_products := [(1, 1), (1, 2)],
                         order_seq := 1\<rparr>"

text \<open>The filter map without any key.\<close>

definition no_order_filter :: order_filter where
  "no_order_filter =
     \<lparr>of_total_amount = None, of_total_amount_gte = None, of_total_amount_lte = None,
      of_total_amount_gt = None, of_total_amount_lt = None, of_order_date = None,
      of_order_date_gte = None, of_order_date_lte = None, of_order_date_year = None,
      of_order_date_month = None, of_order_date_day = None, of_customer = None,
      of_created_at = None, of_created_at_gte = None, of_created_at_lte = None,
      of_created_at_year = None, of_created_at_month = None, of_created_at_day = None,
      of_customer_name = None, of_customer_email = None, of_product_name = None,
      of_product_id = None\<rparr>"

definition no_product_filter :: product_filter where
  "no_product_filter =
     \<lparr>pf_name = None, pf_name_icontains = None, pf_price = None, pf_price_gte = None,
      pf_price_lte = None, pf_price_gt = None, pf_price_lt = None, pf_stock = None,
      pf_stock_gte = None, pf_stock_lte = None, pf_stock_gt = None, pf_stock_lt = None,
      pf_created_at = None, pf_created_at_gte = None, pf_created_at_lte = None,
      pf_created_at_year = None, pf_created_at_month = None, pf_created_at_day = None,
      pf_low_stock = None\<rparr>"

text \<open>
  Customer requests: a new customer, the email of the stored customer with a phone of
  neither format, a new email with such a phone, a phone \<open>ddd-ddd-dddd\<close> written with
  Arabic-Indic digits (U+0660 to U+0669), and a batch of five.
\<close>

definition ex_phone_arabic :: pystr where
  "ex_phone_arabic =
     [0x661, 0x662, 0x663, 0x2D, 0x664, 0x665, 0x666, 0x2D, 0x667, 0x668, 0x669, 0x660]"

definition ex_customer_arabic :: customer_input where
  "ex_customer_arabic = \<lparr>in_name = ''Eli'', in_email = ''e@x.com'',
                           in_phone = Some ex_phone_arabic\<rparr>"

definition ex_customer_new :: customer_input where
  "ex_customer_new = \<lparr>in_name = ''Ben'', in_email = ''b@x.com'',
                        in_phone = Some (codes ''123-456-7890'')\<rparr>"

definition ex_customer_taken :: customer_input where
  "ex_customer_taken = \<lparr>in_name = ''Ana'', in_email = ''a@x.com'', in_phone = Some (codes ''12345'')\<rparr>"

definition ex_customer_badphone :: customer_input where
  "ex_customer_badphone = \<lparr>in_name = ''Cy'', in_email = ''c@x.com'', in_phone = Some (codes ''12345'')\<rparr>"

definition ex_batch :: "customer_input list" where
  "ex_batch =
     [\<lparr>in_name = ''Ben'', in_email = ''b@x.com'', in_phone = None\<rparr>,
      \<lparr>in_name = ''Ana'', in_email = ''a@x.com'', in_phone = None\<rparr>,
      \<lparr>in_name = ''Cy'', in_email = ''c@x.com'', in_phone = Some (codes ''12345'')\<rparr>,
      \<lparr>in_name = ''Di'', in_email = ''d@x.com'', in_phone = Some (codes ''123-456-7890'')\<rparr>,
      \<lparr>in_name = ''Eli'', in_email = ''e@x.com'', in_phone = Some ex_phone_arabic\<rparr>]"

definition ex_product_input :: product_input where
  "ex_product_input = \<lparr>pin_name = ''Widget'', pin_price = Finite (-1), pin_stock = None\<rparr>"

text \<open>An order that was built with a total and is not saved yet.\<close>

definition ex_new_order :: order where
  "ex_new_order =
     \<lparr>o_pk = None, o_customer_id = 1, o_total_amount = 1550,
      o_order_date = Some ex_date, o_created_at = None, o_updated_at = None\<rparr>"

section \<open>Reasoning about computations\<close>

text \<open>When a computation returns: one rule for each way of building one.\<close>

lemma and_then_Inr:
  "and_then m f w = (Inr y, w') \<longleftrightarrow> (\<exists>x w1. m w = (Inr x, w1) \<and> f x w1 = (Inr y, w'))"
  by (auto simp: and_then_def split: prod.splits sum.splits)

lemma return_Inr: "return x w = (Inr y, w') \<longleftrightarrow> y = x \<and> w' = w"
  by (auto simp: return_def)

lemma raise_Inr: "raise e w = (Inr y, w') \<longleftrightarrow> False"
  by (simp add: raise_def)

lemma store_op_Inr:
  "store_op w = (Inr u, w') \<longleftrightarrow> fault w (tick w) = None \<and> w' = w\<lparr>tick := Suc (tick w)\<rparr>"
  by (auto simp: store_op_def split: option.splits)

lemma now_Inr:
  "now w = (Inr t, w') \<longleftrightarrow> t = clock w (tick w) \<and> w' = w\<lparr>tick := Suc (tick w)\<rparr>"
  by (auto simp: now_def)

lemma get_db_Inr: "get_db f w = (Inr x, w') \<longleftrightarrow> x = f (db w) \<and> w' = w"
  by (auto simp: get_db_def)

lemma set_db_Inr: "set_db f w = (Inr u, w') \<longleftrightarrow> w' = w\<lparr>db := f (db w)\<rparr>"
  by (auto simp: set_db_def)

lemmas io_Inr = and_then_Inr return_Inr raise_Inr store_op_Inr now_Inr get_db_Inr set_db_Inr

lemma atomic_Inr:
  "atomic body w = (Inr x, w') \<longleftrightarrow>
     (\<exists>w2. fault w (tick w) = None \<and> body (w\<lparr>tick := Suc (tick w)\<rparr>) = (Inr x, w2) \<and>
       fault w2 (tick w2) = None \<and> w' = w2\<lparr>tick := Suc (tick w2)\<rparr>)"
  by (auto simp: atomic_def store_op_def split: prod.splits sum.splits option.splits)

lemma try_except_Inr:
  "try_except m h w = (Inr x, w') \<longleftrightarrow>
     m w = (Inr x, w') \<or> (\<exists>e w1. m w = (Inl e, w1) \<and> h e w1 = (Inr x, w'))"
  by (auto simp: try_except_def split: prod.splits sum.splits)

text \<open>The definitions that evaluating a request unfolds.\<close>

lemmas io_defs = return_def raise_def and_then_def try_except_def store_op_def get_db_def
  set_db_def now_def atomic_def

lemmas order_defs = fits_decimal_def insert_order_def Model_save_def not_pk_def Order_save_def
  Order_objects_create_def products_all_def products_set_def calculate_total_def
  update_total_def to_int_def Customer_objects_get_def Product_objects_filter_id_in_def
  failed_def resolve_customer_def create_block_def CreateOrder_body_def CreateOrder_mutate_def

lemmas ex_defs = ex_time_def ex_db_def ex_world_def ex_order_input_def ex_order_unknown_def
  ex_order_twice_def ex_date_def ex_order_dated_def ex_down_def ex_new_order_def
  ex_customer_new_def ex_customer_taken_def ex_customer_badphone_def ex_product_input_def
  ex_customer_arabic_def ex_phone_arabic_def

section \<open>Saving an order\<close>

lemma insert_order_Inr:
  assumes "insert_order self w = (Inr s', w')"
  shows "\<exists>k. o_pk s' = Some k \<and> (o_pk self = None \<longrightarrow> 0 < k) \<and>
       (\<forall>j. o_pk self = Some j \<longrightarrow> k = j)
     \<and> o_total_amount s' = o_total_amount self
     \<and> o_customer_id s' = o_customer_id self
     \<and> o_order_date s' = Some (clock w (tick w))
     \<and> (\<forall>r \<in> set (orders (db w)). o_pk r \<noteq> Some k)
     \<and> orders (db w') = orders (db w) @ [s']
     \<and> products (db w') = products (db w)
     \<and> customers (db w') = customers (db w)
     \<and> order_products (db w') = order_products (db w)
     \<and> fault w' = fault w \<and> clock w' = clock w"
  using assms
  by (auto simp: insert_order_def io_Inr Let_def split: if_splits option.splits)

lemma update_rows:
  assumes "\<exists>r \<in> set rs. f r = k" and "f s = k"
  shows "(\<exists>r \<in> set (map (\<lambda>r. if f r = k then s else r) rs). f r = k) \<and>
         (\<forall>r \<in> set (map (\<lambda>r. if f r = k then s else r) rs). f r = k \<longrightarrow> r = s)"
  using assms by (induction rs) auto

text \<open>
  After a save that returns, the rows with the primary key of the instance are the instance
  as returned, and there is one; the other tables are as before.
\<close>

lemma Model_save_Inr:
  assumes "Model_save fi self w = (Inr s', w')"
  shows "\<exists>k. o_pk s' = Some k \<and> (o_pk self = None \<longrightarrow> 0 < k) \<and>
       (\<forall>j. o_pk self = Some j \<longrightarrow> k = j)
     \<and> o_total_amount s' = o_total_amount self
     \<and> o_customer_id s' = o_customer_id self
     \<and> (\<exists>r \<in> set (orders (db w')). o_pk r = Some k)
     \<and> (\<forall>r \<in> set (orders (db w')). o_pk r = Some k \<longrightarrow> r = s')
     \<and> products (db w') = products (db w)
     \<and> customers (db w') = customers (db w)
     \<and> order_products (db w') = order_products (db w)
     \<and> fault w' = fault w \<and> clock w' = clock w"
proof (cases "o_pk self = None \<or> fi")
  case True
  then have "insert_order self w = (Inr s', w')"
    using assms by (auto simp: Model_save_def split: option.splits)
  from insert_order_Inr[OF this] show ?thesis by auto
next
  case False
  then obtain k where k: "o_pk self = Some k" and fi: "\<not> fi" by auto
  define self1 where "self1 = self\<lparr>o_updated_at := Some (clock w (tick w))\<rparr>"
  define w1 where "w1 = w\<lparr>tick := Suc (Suc (tick w))\<rparr>"
  have pk1: "o_pk self1 = Some k" by (simp add: self1_def k)
  show ?thesis
  proof (cases "\<exists>r \<in> set (orders (db w)). o_pk r = Some k")
    case True
    with assms k fi have s': "s' = self1"
      and w': "w' = w1\<lparr>db := (db w)\<lparr>orders :=
                 map (\<lambda>r. if o_pk r = Some k then self1 else r) (orders (db w))\<rparr>\<rparr>"
      by (auto simp: Model_save_def io_Inr Let_def self1_def w1_def split: if_splits)
    from update_rows[where f = o_pk, OF True pk1]
    show ?thesis by (simp add: s' w' w1_def self1_def k del: set_map)
  next
    case False
    with assms k fi have "insert_order self1 w1 = (Inr s', w')"
      by (auto simp: Model_save_def io_Inr Let_def self1_def w1_def split: if_splits)
    from insert_order_Inr[OF this] show ?thesis
      by (auto simp: self1_def w1_def k)
  qed
qed

lemma ex_new_order_saved:
  "fst (Order_save False ex_new_order ex_world) =
     Inr \<lparr>o_pk = Some 1, o_customer_id = 1, o_total_amount = 0,
          o_order_date = Some ex_time,
          o_created_at = Some (ex_time\<lparr>dt_micros := 1\<rparr>),
          o_updated_at = Some (ex_time\<lparr>dt_micros := 2\<rparr>)\<rparr>"
  by (simp add: io_defs order_defs ex_defs Let_def)

section \<open>The total of a created order\<close>

lemma products_all_cong:
  "products d' = products d \<Longrightarrow> order_products d' = order_products d \<Longrightarrow>
   products_all d' k = products_all d k"
  by (simp add: products_all_def)

lemma calculate_total_Inr:
  assumes "calculate_total self w = (Inr t, w')"
  shows "\<exists>k. o_pk self = Some k \<and> t = sum_list (map p_price (products_all (db w) k)) \<and>
     db w' = db w \<and> fault w' = fault w \<and> clock w' = clock w"
  using assms by (auto simp: calculate_total_def io_Inr split: option.splits)

lemma update_total_Inr:
  assumes "update_total self w = (Inr s', w')" and "o_pk self = Some k" and "k \<noteq> 0"
  shows "o_pk s' = Some k
     \<and> o_total_amount s' = sum_list (map p_price (products_all (db w') k))
     \<and> (\<exists>r \<in> set (orders (db w')). o_pk r = Some k)
     \<and> (\<forall>r \<in> set (orders (db w')). o_pk r = Some k \<longrightarrow> r = s')"
proof -
  from assms(1) obtain t w1 where
    c: "calculate_total self w = (Inr t, w1)" and
    s: "Order_save False (self\<lparr>o_total_amount := t\<rparr>) w1 = (Inr s', w')"
    by (auto simp: update_total_def io_Inr)
  from calculate_total_Inr[OF c] assms(2)
  have t: "t = sum_list (map p_price (products_all (db w1) k))" by auto
  from s assms(2,3) have ms: "Model_save False (self\<lparr>o_total_amount := t\<rparr>) w1 = (Inr s', w')"
    by (simp add: Order_save_def not_pk_def)
  from Model_save_Inr[OF ms] assms(2)
  have m: "o_pk s' = Some k" "o_total_amount s' = t"
    "\<exists>r \<in> set (orders (db w')). o_pk r = Some k"
    "\<forall>r \<in> set (orders (db w')). o_pk r = Some k \<longrightarrow> r = s'"
    "products (db w') = products (db w1)" "order_products (db w') = order_products (db w1)"
    by auto
  from products_all_cong[OF m(5,6)] t m(1-4) show ?thesis by simp
qed

lemma Order_objects_create_Inr:
  assumes "Order_objects_create c t d w = (Inr s', w')"
  shows "\<exists>k. o_pk s' = Some k \<and> 0 < k"
proof -
  from assms have "insert_order \<lparr>o_pk = None, o_customer_id = c, o_total_amount = 0,
        o_order_date = Some d, o_created_at = None, o_updated_at = None\<rparr> w = (Inr s', w')"
    by (simp add: Order_objects_create_def Order_save_def not_pk_def Model_save_def)
  from insert_order_Inr[OF this] show ?thesis by auto
qed

lemma create_block_Inr:
  assumes "create_block customer amount prods date_in w = (Inr ord, w')"
  shows "\<exists>ord0 w1 w2 w3 w4 d.
     db w1 = db w \<and>
     Order_objects_create (c_id customer) amount d w1 = (Inr ord0, w2) \<and>
     products_set ord0 prods w2 = (Inr (), w3) \<and>
     update_total ord0 w3 = (Inr ord, w4) \<and> db w' = db w4"
proof (cases date_in)
  case None
  with assms obtain x w1 w1a w2 where
    "Order_objects_create (c_id customer) amount
          (clock w (Suc (tick w))) (w\<lparr>tick := Suc (Suc (tick w))\<rparr>) = (Inr x, w1)"
    "products_set x prods w1 = (Inr (), w1a)" "update_total x w1a = (Inr ord, w2)"
    "w' = w2\<lparr>tick := Suc (tick w2)\<rparr>"
    unfolding create_block_def by (auto simp: io_Inr atomic_Inr)
  then show ?thesis
    by (intro exI[of _ x] exI[of _ "w\<lparr>tick := Suc (Suc (tick w))\<rparr>"] exI[of _ w1]
          exI[of _ w1a] exI[of _ w2] exI[of _ "clock w (Suc (tick w))"]) simp
next
  case (Some a)
  with assms obtain x w1 w1a w2 where
    "Order_objects_create (c_id customer) amount
          a (w\<lparr>tick := Suc (tick w)\<rparr>) = (Inr x, w1)"
    "products_set x prods w1 = (Inr (), w1a)" "update_total x w1a = (Inr ord, w2)"
    "w' = w2\<lparr>tick := Suc (tick w2)\<rparr>"
    unfolding create_block_def by (auto simp: io_Inr atomic_Inr)
  then show ?thesis
    by (intro exI[of _ x] exI[of _ "w\<lparr>tick := Suc (tick w)\<rparr>"] exI[of _ w1]
          exI[of _ w1a] exI[of _ w2] exI[of _ a]) simp
qed

text \<open>A request that succeeds went through the transaction block.\<close>

lemma CreateOrder_success:
  assumes "CreateOrder_mutate inp w = (Inr r, w')" and "r_success r"
  shows "\<exists>customer amount prods w1 ord.
     create_block customer amount prods (order_date inp) w1 = (Inr ord, w') \<and>
     r_order r = Some ord"
proof -
  from assms have b: "CreateOrder_body inp w = (Inr r, w')"
    by (auto simp: CreateOrder_mutate_def try_except_Inr io_Inr failed_def)
  then obtain found w1 where
    rest: "(case found of
         None \<Rightarrow> return (failed ''Invalid customer ID'')
       | Some customer \<Rightarrow>
           if product_ids inp = [] then return (failed ''At least one product is required'')
           else
             and_then (Product_objects_filter_id_in (product_ids inp)) (\<lambda>prods.
               if length prods \<noteq> length (product_ids inp)
               then return (failed ''One or more invalid product IDs'')
               else
                 let total_amount = sum_list (map p_price prods) in
                 and_then (create_block customer total_amount prods (order_date inp)) (\<lambda>order.
                   return \<lparr>r_order = Some order,
                           r_message = ''Order created successfully'',
                           r_success = True\<rparr>))) w1 = (Inr r, w')"
    unfolding CreateOrder_body_def and_then_Inr by blast
  from rest assms(2) show ?thesis
    by (fastforce simp: io_Inr failed_def Let_def split: option.splits if_splits)
qed

lemma ex_order_created:
  "fst (CreateOrder_mutate ex_order_input ex_world) =
     Inr \<lparr>r_order = Some \<lparr>o_pk = Some 1, o_customer_id = 1, o_total_amount = 1550,
            o_order_date = Some (ex_time\<lparr>dt_micros := 4\<rparr>),
            o_created_at = Some (ex_time\<lparr>dt_micros := 5\<rparr>),
            o_updated_at = Some (ex_time\<lparr>dt_micros := 11\<rparr>)\<rparr>,
          r_message = ''Order created successfully'', r_success = True\<rparr>"
  by (simp add: io_defs order_defs ex_defs Let_def)

text \<open>
  Claim C1. When \<open>createOrder\<close> returns with \<open>success = true\<close>, the order it returns has a
  primary key, a row is stored under that key, and the total of the returned order and of
  the stored row is the exact sum of the prices of the products that are associated with the
  order in the store as the mutation leaves it.
\<close>

theorem create_order_total:
  assumes "CreateOrder_mutate inp w = (Inr r, w')" and "r_success r"
  shows "\<exists>ord k. r_order r = Some ord \<and> o_pk ord = Some k
     \<and> o_total_amount ord = sum_list (map p_price (products_all (db w') k))
     \<and> (\<exists>row \<in> set (orders (db w')). o_pk row = Some k)
     \<and> (\<forall>row \<in> set (orders (db w')). o_pk row = Some k \<longrightarrow>
           o_total_amount row = sum_list (map p_price (products_all (db w') k)))"
proof -
  from CreateOrder_success[OF assms] obtain customer amount prods w0 ord where
    blk: "create_block customer amount prods (order_date inp) w0 = (Inr ord, w')" and
    r: "r_order r = Some ord"
    by blast
  from create_block_Inr[OF blk] obtain ord0 w1 w2 w3 w4 c t d where
    cr: "Order_objects_create c t d w1 = (Inr ord0, w2)" and
    up: "update_total ord0 w3 = (Inr ord, w4)" and
    d: "db w' = db w4"
    by blast
  from Order_objects_create_Inr[OF cr] obtain k where k: "o_pk ord0 = Some k" "0 < k" by auto
  then have "k \<noteq> 0" by simp
  from update_total_Inr[OF up k(1) this] r d show ?thesis by auto
qed

theorem create_order_total_witness:
  "\<exists>r w'. CreateOrder_mutate ex_order_input ex_world = (Inr r, w') \<and> r_success r \<and>
     (\<exists>ord k. r_order r = Some ord \<and> o_pk ord = Some k \<and> o_total_amount ord = 1550
       \<and> o_total_amount ord = sum_list (map p_price (products_all (db w') k))
       \<and> (\<exists>row \<in> set (orders (db w')). o_pk row = Some k)
       \<and> (\<forall>row \<in> set (orders (db w')). o_pk row = Some k \<longrightarrow>
             o_total_amount row = sum_list (map p_price (products_all (db w') k))))"
proof -
  obtain r w' where e: "CreateOrder_mutate ex_order_input ex_world = (Inr r, w')"
    and s: "r_success r"
    and t: "\<forall>ord. r_order r = Some ord \<longrightarrow> o_total_amount ord = 1550"
    using ex_order_created by (cases "CreateOrder_mutate ex_order_input ex_world") auto
  from create_order_total[OF e s] e s t show ?thesis by blast
qed

section \<open>Requests for products that do not exist\<close>

lemma prep_ids_result:
  "prep_ids is w = (x, w') \<Longrightarrow> w' = w \<and>
     (\<forall>ks. x = Inr ks \<longrightarrow> length ks \<le> length is \<and>
        (None \<in> set is \<longrightarrow> length ks < length is) \<and>
        (\<forall>i \<in> set is. (\<forall>t. i \<noteq> Some (BadID t)) \<and> (\<forall>k. i = Some (IntID k) \<longrightarrow> k \<in> set ks)))"
proof (induction "is" arbitrary: x w' rule: prep_ids.induct)
  case 1
  then show ?case by (auto simp: return_def)
next
  case (2 "is")
  from 2 show ?case by fastforce
next
  case (3 i "is")
  show ?case
  proof (cases i)
    case (IntID k)
    obtain y w1 where r: "prep_ids is w = (y, w1)" by (cases "prep_ids is w")
    from "3.IH"[OF r] have w1: "w1 = w" and
      ih: "\<forall>ks. y = Inr ks \<longrightarrow> length ks \<le> length is \<and>
        (None \<in> set is \<longrightarrow> length ks < length is) \<and>
        (\<forall>i \<in> set is. (\<forall>t. i \<noteq> Some (BadID t)) \<and> (\<forall>k. i = Some (IntID k) \<longrightarrow> k \<in> set ks))"
      by auto
    from "3.prems" IntID r w1 have "w' = w"
      by (cases y) (auto simp: and_then_def to_int_def return_def)
    moreover have "\<forall>ks. x = Inr ks \<longrightarrow> length ks \<le> length (Some i # is) \<and>
        (None \<in> set (Some i # is) \<longrightarrow> length ks < length (Some i # is)) \<and>
        (\<forall>j \<in> set (Some i # is). (\<forall>t. j \<noteq> Some (BadID t)) \<and>
            (\<forall>k. j = Some (IntID k) \<longrightarrow> k \<in> set ks))"
      using "3.prems" IntID r w1 ih
      by (cases y) (auto simp: and_then_def to_int_def return_def)
    ultimately show ?thesis by simp
  next
    case (BadID t)
    with "3.prems" show ?thesis
      by (auto simp: and_then_def to_int_def raise_def)
  qed
qed

lemma length_filter_distinct:
  assumes "distinct (map f xs)"
  shows "length (filter (\<lambda>x. f x \<in> S) xs) = card (S \<inter> f ` set xs)"
proof -
  have "length (filter (\<lambda>x. f x \<in> S) xs) = length (filter (\<lambda>y. y \<in> S) (map f xs))"
    by (simp add: filter_map comp_def)
  also have "\<dots> = card (set (filter (\<lambda>y. y \<in> S) (map f xs)))"
    using assms distinct_card[of "filter (\<lambda>y. y \<in> S) (map f xs)"] distinct_filter
    by metis
  also have "set (filter (\<lambda>y. y \<in> S) (map f xs)) = S \<inter> f ` set xs" by auto
  finally show ?thesis .
qed

lemma filter_id_in_result:
  assumes "Product_objects_filter_id_in is w = (x, w')"
  shows "db w' = db w \<and> (\<forall>prods. x = Inr prods \<longrightarrow>
     (\<exists>ks. prep_ids is w = (Inr ks, w) \<and> prods = filter (\<lambda>p. p_id p \<in> set ks) (products (db w))))"
proof -
  obtain y w1 where r: "prep_ids is w = (y, w1)" by (cases "prep_ids is w")
  from prep_ids_result[OF r] have w1: "w1 = w" by simp
  from assms r w1 show ?thesis
    by (cases y) (auto simp: Product_objects_filter_id_in_def io_defs split: option.splits)
qed

lemma unresolved_short:
  assumes d: "distinct (map p_id (products (db w)))"
    and u: "i \<in> set is" "\<not> resolves (db w) i"
    and f: "Product_objects_filter_id_in is w = (Inr prods, w')"
  shows "length prods < length is"
proof -
  from filter_id_in_result[OF f] obtain ks where
    ks: "prep_ids is w = (Inr ks, w)" and
    p: "prods = filter (\<lambda>p. p_id p \<in> set ks) (products (db w))" by auto
  from prep_ids_result[OF ks] have
    l: "length ks \<le> length is" and n: "None \<in> set is \<longrightarrow> length ks < length is" and
    m: "\<forall>i \<in> set is. (\<forall>t. i \<noteq> Some (BadID t)) \<and> (\<forall>k. i = Some (IntID k) \<longrightarrow> k \<in> set ks)"
    by auto
  let ?P = "p_id ` set (products (db w))"
  have lp: "length prods = card (set ks \<inter> ?P)"
    unfolding p by (rule length_filter_distinct[OF d])
  have c: "card (set ks \<inter> ?P) \<le> card (set ks)" by (simp add: card_mono)
  have k: "card (set ks) \<le> length ks" by (rule card_length)
  show ?thesis
  proof (cases i)
    case None
    with u(1) n have "length ks < length is" by simp
    with lp c k show ?thesis by simp
  next
    case (Some g)
    show ?thesis
    proof (cases g)
      case (IntID j)
      with Some u m have j: "j \<in> set ks" by auto
      from Some IntID u(2) have "j \<notin> ?P" by (auto simp: resolves_def)
      with j have "set ks \<inter> ?P \<subset> set ks" by auto
      then have "card (set ks \<inter> ?P) < card (set ks)" by (simp add: psubset_card_mono)
      with lp k l show ?thesis by simp
    next
      case (BadID t)
      with Some u(1) m show ?thesis by auto
    qed
  qed
qed

lemma Customer_objects_get_db: "Customer_objects_get i w = (x, w') \<Longrightarrow> db w' = db w"
  by (auto simp: Customer_objects_get_def io_defs to_int_def split: gid.splits option.splits list.splits sum.splits prod.splits)

lemma resolve_customer_db: "resolve_customer i w = (x, w') \<Longrightarrow> db w' = db w"
  unfolding resolve_customer_def try_except_def and_then_def
  by (auto simp: return_def raise_def dest: Customer_objects_get_db split: prod.splits sum.splits if_splits)

text \<open>
  Claim C2. In a store whose product ids are unique, a request whose \<open>product_ids\<close> holds an
  id that does not resolve to an existing product gets a result with \<open>success = false\<close> and
  no order, and the tables are left as they were: no order row is stored.
\<close>

theorem create_order_unknown_product:
  assumes "distinct (map p_id (products (db w)))"
    and "\<exists>i \<in> set (product_ids inp). \<not> resolves (db w) i"
  shows "\<exists>r w'. CreateOrder_mutate inp w = (Inr r, w') \<and> \<not> r_success r \<and> r_order r = None \<and>
     db w' = db w"
proof -
  from assms(2) obtain i where i: "i \<in> set (product_ids inp)" "\<not> resolves (db w) i" by blast
  then have ne: "product_ids inp \<noteq> []" by auto
  obtain x w1 where rc: "resolve_customer (customer_id inp) w = (x, w1)"
    by (cases "resolve_customer (customer_id inp) w")
  from resolve_customer_db[OF rc] have d1: "db w1 = db w" .
  obtain y w2 where pf: "Product_objects_filter_id_in (product_ids inp) w1 = (y, w2)"
    by (cases "Product_objects_filter_id_in (product_ids inp) w1")
  from filter_id_in_result[OF pf] d1 have d2: "db w2 = db w" by simp
  have short: "\<And>prods. y = Inr prods \<Longrightarrow> length prods \<noteq> length (product_ids inp)"
    using unresolved_short[of w1 i "product_ids inp"] assms(1) i d1 pf by fastforce
  show ?thesis
    using rc pf d1 d2 short ne
    by (cases x; cases y)
       (auto simp: CreateOrder_mutate_def CreateOrder_body_def try_except_def and_then_def
          return_def failed_def split: option.splits)
qed

theorem create_order_unknown_product_witness:
  "distinct (map p_id (products (db ex_world))) \<and>
   (\<exists>i \<in> set (product_ids ex_order_unknown). \<not> resolves (db ex_world) i) \<and>
   (\<exists>r w'. CreateOrder_mutate ex_order_unknown ex_world = (Inr r, w') \<and> \<not> r_success r \<and>
      r_order r = None \<and> db w' = db ex_world)"
proof -
  have d: "distinct (map p_id (products (db ex_world)))"
    by (simp add: ex_defs)
  have "\<not> resolves (db ex_world) (Some (IntID 99))"
    by (simp add: resolves_def ex_defs)
  then have u: "\<exists>i \<in> set (product_ids ex_order_unknown). \<not> resolves (db ex_world) i"
    by (simp add: ex_order_unknown_def ex_order_input_def)
  from create_order_unknown_product[OF d u] d u show ?thesis by blast
qed

section \<open>The products of a created order\<close>

lemma mem_products_all:
  "p \<in> set (products_all d k) \<longleftrightarrow> p \<in> set (products d) \<and> (k, p_id p) \<in> set (order_products d)"
  by (auto simp: products_all_def filter_empty_conv)

lemma products_set_Inr:
  assumes "products_set self objs w = (Inr u, w')" and "o_pk self = Some k"
  shows "products (db w') = products (db w) \<and> orders (db w') = orders (db w) \<and>
     set (products_all (db w') k) = {p \<in> set (products (db w)). p_id p \<in> p_id ` set objs}"
proof -
  define current where "current = map p_id (products_all (db w) k)"
  define old_ids where "old_ids = filter (\<lambda>i. i \<notin> set (map p_id objs)) current"
  define new_ids where "new_ids = remdups (filter (\<lambda>i. i \<notin> set current) (map p_id objs))"
  define links where "links =
     filter (\<lambda>l. \<not> (fst l = k \<and> snd l \<in> set old_ids)) (order_products (db w)) @
     map (\<lambda>i. (k, i)) new_ids"
  from assms have
    p: "products (db w') = products (db w)" and o: "orders (db w') = orders (db w)" and
    l: "set (order_products (db w')) = set links"
    by (auto simp: products_set_def io_Inr Let_def current_def old_ids_def new_ids_def links_def
          filter_empty_conv split: if_splits)
  have cur: "\<And>q. q \<in> set (products (db w)) \<Longrightarrow>
      p_id q \<in> set current \<longleftrightarrow> (\<exists>q' \<in> set (products (db w)). p_id q' = p_id q \<and>
         (k, p_id q) \<in> set (order_products (db w)))"
    by (auto simp: current_def mem_products_all image_iff)
  have "\<And>q. q \<in> set (products (db w)) \<Longrightarrow>
      (k, p_id q) \<in> set links \<longleftrightarrow> p_id q \<in> p_id ` set objs"
  proof -
    fix q assume q: "q \<in> set (products (db w))"
    show "(k, p_id q) \<in> set links \<longleftrightarrow> p_id q \<in> p_id ` set objs"
    proof (cases "(k, p_id q) \<in> set (order_products (db w))")
      case True
      with q cur have "p_id q \<in> set current" by blast
      with True show ?thesis
        by (auto simp: links_def old_ids_def new_ids_def)
    next
      case False
      with q cur have "p_id q \<notin> set current" by blast
      with False show ?thesis
        by (auto simp: links_def old_ids_def new_ids_def)
    qed
  qed
  then have "\<And>q. q \<in> set (products_all (db w') k) \<longleftrightarrow>
      q \<in> set (products (db w)) \<and> p_id q \<in> p_id ` set objs"
    unfolding mem_products_all p l by blast
  then have "set (products_all (db w') k) =
      {p \<in> set (products (db w)). p_id p \<in> p_id ` set objs}"
    by blast
  with p o show ?thesis by simp
qed

lemma prep_ids_set:
  "prep_ids is w = (Inr ks, w') \<Longrightarrow> set ks = {k. Some (IntID k) \<in> set is}"
proof (induction "is" arbitrary: ks w' rule: prep_ids.induct)
  case 1
  then show ?case by (auto simp: return_def)
next
  case (2 "is")
  then show ?case by auto
next
  case (3 i "is")
  show ?case
  proof (cases i)
    case (IntID k)
    with "3.prems" obtain ks' w1 where r: "prep_ids is w = (Inr ks', w1)" and ks: "ks = k # ks'"
      by (auto simp: io_Inr to_int_def)
    from "3.IH"[OF r] ks IntID show ?thesis by auto
  next
    case (BadID t)
    with "3.prems" show ?thesis by (auto simp: and_then_def to_int_def raise_def)
  qed
qed

lemma Order_objects_create_frame:
  assumes "Order_objects_create c t d w = (Inr s', w')"
  shows "products (db w') = products (db w)"
proof -
  from assms have "insert_order \<lparr>o_pk = None, o_customer_id = c, o_total_amount = 0,
        o_order_date = Some d, o_created_at = None, o_updated_at = None\<rparr> w = (Inr s', w')"
    by (simp add: Order_objects_create_def Order_save_def not_pk_def Model_save_def)
  from insert_order_Inr[OF this] show ?thesis by auto
qed

lemma update_total_frame:
  assumes "update_total self w = (Inr s', w')" and "o_pk self = Some k" and "k \<noteq> 0"
  shows "products_all (db w') k = products_all (db w) k"
proof -
  from assms(1) obtain t w1 where
    c: "calculate_total self w = (Inr t, w1)" and
    s: "Order_save False (self\<lparr>o_total_amount := t\<rparr>) w1 = (Inr s', w')"
    by (auto simp: update_total_def io_Inr)
  from calculate_total_Inr[OF c] have d: "db w1 = db w" by auto
  from s assms(2,3) have "Model_save False (self\<lparr>o_total_amount := t\<rparr>) w1 = (Inr s', w')"
    by (simp add: Order_save_def not_pk_def)
  from Model_save_Inr[OF this] d show ?thesis
    by (auto intro: products_all_cong)
qed

lemma create_block_products:
  assumes "create_block customer amount prods date_in w = (Inr ord, w')"
  shows "\<exists>k. o_pk ord = Some k \<and>
     set (products_all (db w') k) =
       {p \<in> set (products (db w)). p_id p \<in> p_id ` set prods}"
proof -
  from create_block_Inr[OF assms] obtain ord0 ws wa wb wc d where
    ws: "db ws = db w" and
    cr: "Order_objects_create (c_id customer) amount d ws = (Inr ord0, wa)"
    and st: "products_set ord0 prods wa = (Inr (), wb)"
    and up: "update_total ord0 wb = (Inr ord, wc)"
    and w': "db w' = db wc"
    by blast
  from Order_objects_create_Inr[OF cr] obtain k where k: "o_pk ord0 = Some k" "0 < k" by auto
  then have k0: "k \<noteq> 0" by simp
  from Order_objects_create_frame[OF cr] ws have p1: "products (db wa) = products (db w)"
    by simp
  from products_set_Inr[OF st k(1)] p1 have
    "set (products_all (db wb) k) = {p \<in> set (products (db w)). p_id p \<in> p_id ` set prods}"
    by simp
  with update_total_frame[OF up k(1) k0] update_total_Inr[OF up k(1) k0] w'
  show ?thesis by simp
qed

text \<open>
  The products that a created order is associated with are the product rows whose ids the
  request names.
\<close>

lemma create_order_products:
  assumes "CreateOrder_mutate inp w = (Inr r, w')" and "r_success r"
  shows "\<exists>ord k. r_order r = Some ord \<and> o_pk ord = Some k \<and>
     set (products_all (db w') k) =
       {p \<in> set (products (db w)). Some (IntID (p_id p)) \<in> set (product_ids inp)}"
proof -
  from assms have b: "CreateOrder_body inp w = (Inr r, w')"
    by (auto simp: CreateOrder_mutate_def try_except_Inr io_Inr failed_def)
  then obtain found w1 where
    f: "resolve_customer (customer_id inp) w = (Inr found, w1)" and
    rest: "(case found of
         None \<Rightarrow> return (failed ''Invalid customer ID'')
       | Some customer \<Rightarrow>
           if product_ids inp = [] then return (failed ''At least one product is required'')
           else
             and_then (Product_objects_filter_id_in (product_ids inp)) (\<lambda>prods.
               if length prods \<noteq> length (product_ids inp)
               then return (failed ''One or more invalid product IDs'')
               else
                 let total_amount = sum_list (map p_price prods) in
                 and_then (create_block customer total_amount prods (order_date inp)) (\<lambda>order.
                   return \<lparr>r_order = Some order,
                           r_message = ''Order created successfully'',
                           r_success = True\<rparr>))) w1 = (Inr r, w')"
    unfolding CreateOrder_body_def and_then_Inr by blast
  from rest assms(2) obtain customer amount prods w2 ord where
    pf: "Product_objects_filter_id_in (product_ids inp) w1 = (Inr prods, w2)" and
    blk: "create_block customer amount prods (order_date inp) w2 = (Inr ord, w')" and
    r: "r_order r = Some ord"
    by (fastforce simp: io_Inr failed_def Let_def split: option.splits if_splits)
  from resolve_customer_db[OF f] have d1: "db w1 = db w" .
  from filter_id_in_result[OF pf] obtain ks where
    d2: "db w2 = db w1" and ks: "prep_ids (product_ids inp) w1 = (Inr ks, w1)" and
    prods: "prods = filter (\<lambda>p. p_id p \<in> set ks) (products (db w1))"
    by auto
  from prep_ids_set[OF ks] have sks: "set ks = {k. Some (IntID k) \<in> set (product_ids inp)}" .
  from create_block_products[OF blk] obtain k where
    k: "o_pk ord = Some k" and
    a: "set (products_all (db w') k) =
          {p \<in> set (products (db w2)). p_id p \<in> p_id ` set prods}"
    by blast
  have "{p \<in> set (products (db w2)). p_id p \<in> p_id ` set prods} =
        {p \<in> set (products (db w)). Some (IntID (p_id p)) \<in> set (product_ids inp)}"
    using d1 d2 sks by (auto simp: prods)
  with a k r show ?thesis by simp
qed

section \<open>The provisional total and the stored total\<close>

lemma ex_block_created:
  "fst (create_block (hd (customers ex_db)) 7 (take 2 (products ex_db)) None ex_world) =
     Inr \<lparr>o_pk = Some 1, o_customer_id = 1, o_total_amount = 1550,
          o_order_date = Some (ex_time\<lparr>dt_micros := 2\<rparr>),
          o_created_at = Some (ex_time\<lparr>dt_micros := 3\<rparr>),
          o_updated_at = Some (ex_time\<lparr>dt_micros := 9\<rparr>)\<rparr>"
  by (simp add: io_defs order_defs ex_defs Let_def)

text \<open>
  Claim C10. Saving an order that has no primary key yet writes the total 0.00, whatever
  total the instance was built with: the instance returned and the row stored under its key
  have the total 0, and the save does the same for any other total. So the provisional total
  that \<open>createOrder\<close> computes and passes to \<open>create\<close> is not stored: \<open>create\<close> and the
  transaction block do the same for every provisional total. What is stored is the
  recomputation after the association: when the block returns an order, whatever the
  provisional total was, the products associated with the order are the product rows with
  the ids of the products given, and the total of the order, as returned and as stored under
  its key, is the sum of the prices of these associated products; the same holds of the
  order of a \<open>createOrder\<close> that succeeds.
\<close>

theorem order_save_new_total_zero:
  "(not_pk (o_pk self) \<and> Order_save force_insert self w = (Inr saved, w') \<longrightarrow>
      o_total_amount saved = 0 \<and>
      (\<exists>k. o_pk saved = Some k \<and> (\<exists>row \<in> set (orders (db w')). o_pk row = Some k) \<and>
         (\<forall>row \<in> set (orders (db w')). o_pk row = Some k \<longrightarrow> o_total_amount row = 0)) \<and>
      Order_save force_insert (self\<lparr>o_total_amount := t\<rparr>) w = (Inr saved, w')) \<and>
   Order_objects_create c t d w = Order_objects_create c 0 d w \<and>
   create_block customer t prods date w = create_block customer 0 prods date w \<and>
   (create_block customer t prods date w = (Inr ord, v) \<longrightarrow>
      (\<exists>k. o_pk ord = Some k \<and>
         set (products_all (db v) k) =
           {p \<in> set (products (db w)). p_id p \<in> p_id ` set prods} \<and>
         o_total_amount ord = sum_list (map p_price (products_all (db v) k)) \<and>
         (\<exists>row \<in> set (orders (db v)). o_pk row = Some k) \<and>
         (\<forall>row \<in> set (orders (db v)). o_pk row = Some k \<longrightarrow>
            o_total_amount row = sum_list (map p_price (products_all (db v) k))))) \<and>
   (CreateOrder_mutate inp w = (Inr r, u) \<and> r_success r \<longrightarrow>
      (\<exists>order k. r_order r = Some order \<and> o_pk order = Some k \<and>
         set (products_all (db u) k) =
           {p \<in> set (products (db w)). Some (IntID (p_id p)) \<in> set (product_ids inp)} \<and>
         o_total_amount order = sum_list (map p_price (products_all (db u) k)) \<and>
         (\<exists>row \<in> set (orders (db u)). o_pk row = Some k) \<and>
         (\<forall>row \<in> set (orders (db u)). o_pk row = Some k \<longrightarrow>
            o_total_amount row = sum_list (map p_price (products_all (db u) k)))))"
proof (intro conjI impI)
  assume "not_pk (o_pk self) \<and> Order_save force_insert self w = (Inr saved, w')"
  then have a: "not_pk (o_pk self)" "Order_save force_insert self w = (Inr saved, w')"
    by simp_all
  then have m: "Model_save force_insert (self\<lparr>o_total_amount := 0\<rparr>) w = (Inr saved, w')"
    by (simp add: Order_save_def)
  from Model_save_Inr[OF m] show "o_total_amount saved = 0" by auto
  from Model_save_Inr[OF m] show
    "\<exists>k. o_pk saved = Some k \<and> (\<exists>row \<in> set (orders (db w')). o_pk row = Some k) \<and>
       (\<forall>row \<in> set (orders (db w')). o_pk row = Some k \<longrightarrow> o_total_amount row = 0)"
    by auto
  from a show "Order_save force_insert (self\<lparr>o_total_amount := t\<rparr>) w = (Inr saved, w')"
    by (simp add: Order_save_def)
next
  have c: "Order_objects_create c t d = Order_objects_create c 0 d" for c d
    by (rule ext) (simp add: Order_objects_create_def Order_save_def not_pk_def)
  show "Order_objects_create c t d w = Order_objects_create c 0 d w" by (simp add: c)
  show "create_block customer t prods date w = create_block customer 0 prods date w"
    by (simp add: create_block_def c)
next
  assume blk: "create_block customer t prods date w = (Inr ord, v)"
  from create_block_Inr[OF blk] obtain ord0 w1 w2 w3 w4 d where
    cr: "Order_objects_create (c_id customer) t d w1 = (Inr ord0, w2)" and
    up: "update_total ord0 w3 = (Inr ord, w4)" and
    d: "db v = db w4"
    by blast
  from Order_objects_create_Inr[OF cr] obtain k where k: "o_pk ord0 = Some k" "0 < k" by auto
  then have "k \<noteq> 0" by simp
  from update_total_Inr[OF up k(1) this] d have
    u: "o_pk ord = Some k"
       "o_total_amount ord = sum_list (map p_price (products_all (db v) k))"
       "\<exists>row \<in> set (orders (db v)). o_pk row = Some k"
       "\<forall>row \<in> set (orders (db v)). o_pk row = Some k \<longrightarrow>
          o_total_amount row = sum_list (map p_price (products_all (db v) k))"
    by auto
  from create_block_products[OF blk] u(1) have
    "set (products_all (db v) k) = {p \<in> set (products (db w)). p_id p \<in> p_id ` set prods}"
    by auto
  with u show "\<exists>k. o_pk ord = Some k \<and>
         set (products_all (db v) k) =
           {p \<in> set (products (db w)). p_id p \<in> p_id ` set prods} \<and>
         o_total_amount ord = sum_list (map p_price (products_all (db v) k)) \<and>
         (\<exists>row \<in> set (orders (db v)). o_pk row = Some k) \<and>
         (\<forall>row \<in> set (orders (db v)). o_pk row = Some k \<longrightarrow>
            o_total_amount row = sum_list (map p_price (products_all (db v) k)))"
    by blast
next
  assume a: "CreateOrder_mutate inp w = (Inr r, u) \<and> r_success r"
  then have e: "CreateOrder_mutate inp w = (Inr r, u)" and s: "r_success r" by auto
  from CreateOrder_success[OF e s] obtain customer amount prods w0 order where
    blk: "create_block customer amount prods (order_date inp) w0 = (Inr order, u)" and
    r: "r_order r = Some order"
    by blast
  from create_block_Inr[OF blk] obtain ord0 w1 w2 w3 w4 d where
    cr: "Order_objects_create (c_id customer) amount d w1 = (Inr ord0, w2)" and
    up: "update_total ord0 w3 = (Inr order, w4)" and
    d: "db u = db w4"
    by blast
  from Order_objects_create_Inr[OF cr] obtain k where k: "o_pk ord0 = Some k" "0 < k" by auto
  then have "k \<noteq> 0" by simp
  from update_total_Inr[OF up k(1) this] d have
    t: "o_pk order = Some k"
       "o_total_amount order = sum_list (map p_price (products_all (db u) k))"
       "\<exists>row \<in> set (orders (db u)). o_pk row = Some k"
       "\<forall>row \<in> set (orders (db u)). o_pk row = Some k \<longrightarrow>
          o_total_amount row = sum_list (map p_price (products_all (db u) k))"
    by auto
  from create_order_products[OF e s] r t(1) have
    "set (products_all (db u) k) =
       {p \<in> set (products (db w)). Some (IntID (p_id p)) \<in> set (product_ids inp)}"
    by auto
  with r t show "\<exists>order k. r_order r = Some order \<and> o_pk order = Some k \<and>
         set (products_all (db u) k) =
           {p \<in> set (products (db w)). Some (IntID (p_id p)) \<in> set (product_ids inp)} \<and>
         o_total_amount order = sum_list (map p_price (products_all (db u) k)) \<and>
         (\<exists>row \<in> set (orders (db u)). o_pk row = Some k) \<and>
         (\<forall>row \<in> set (orders (db u)). o_pk row = Some k \<longrightarrow>
            o_total_amount row = sum_list (map p_price (products_all (db u) k)))"
    by blast
qed

theorem order_save_new_total_zero_witness:
  "not_pk (o_pk ex_new_order) \<and>
   (\<exists>saved w'. Order_save False ex_new_order ex_world = (Inr saved, w') \<and>
      o_total_amount ex_new_order = 1550 \<and> o_total_amount saved = 0 \<and>
      (\<exists>k. o_pk saved = Some k \<and> (\<exists>row \<in> set (orders (db w')). o_pk row = Some k) \<and>
         (\<forall>row \<in> set (orders (db w')). o_pk row = Some k \<longrightarrow> o_total_amount row = 0)) \<and>
      Order_save False (ex_new_order\<lparr>o_total_amount := 7\<rparr>) ex_world = (Inr saved, w')) \<and>
   Order_objects_create 1 7 ex_date ex_world = Order_objects_create 1 0 ex_date ex_world \<and>
   create_block (hd (customers ex_db)) 7 (take 2 (products ex_db)) None ex_world =
     create_block (hd (customers ex_db)) 0 (take 2 (products ex_db)) None ex_world \<and>
   (\<exists>ord v. create_block (hd (customers ex_db)) 7 (take 2 (products ex_db)) None ex_world =
        (Inr ord, v) \<and>
      o_total_amount ord = 1550 \<and>
      (\<exists>k. o_pk ord = Some k \<and>
         set (products_all (db v) k) =
           {p \<in> set (products (db ex_world)). p_id p \<in> p_id ` set (take 2 (products ex_db))} \<and>
         o_total_amount ord = sum_list (map p_price (products_all (db v) k)) \<and>
         (\<exists>row \<in> set (orders (db v)). o_pk row = Some k) \<and>
         (\<forall>row \<in> set (orders (db v)). o_pk row = Some k \<longrightarrow>
            o_total_amount row = sum_list (map p_price (products_all (db v) k))))) \<and>
   (\<exists>r u. CreateOrder_mutate ex_order_input ex_world = (Inr r, u) \<and> r_success r \<and>
      (\<exists>order k. r_order r = Some order \<and> o_pk order = Some k \<and>
         o_total_amount order = 1550 \<and>
         set (products_all (db u) k) =
           {p \<in> set (products (db ex_world)).
              Some (IntID (p_id p)) \<in> set (product_ids ex_order_input)} \<and>
         o_total_amount order = sum_list (map p_price (products_all (db u) k)) \<and>
         (\<exists>row \<in> set (orders (db u)). o_pk row = Some k) \<and>
         (\<forall>row \<in> set (orders (db u)). o_pk row = Some k \<longrightarrow>
            o_total_amount row = sum_list (map p_price (products_all (db u) k)))))"
proof -
  have n: "not_pk (o_pk ex_new_order)" "o_total_amount ex_new_order = 1550"
    by (simp_all add: ex_new_order_def not_pk_def)
  obtain saved w' where e: "Order_save False ex_new_order ex_world = (Inr saved, w')"
    using ex_new_order_saved by (cases "Order_save False ex_new_order ex_world") auto
  obtain ord v where
    b: "create_block (hd (customers ex_db)) 7 (take 2 (products ex_db)) None ex_world =
          (Inr ord, v)" and
    bt: "o_total_amount ord = 1550"
    using ex_block_created
    by (cases "create_block (hd (customers ex_db)) 7 (take 2 (products ex_db)) None ex_world")
       auto
  obtain r u where m: "CreateOrder_mutate ex_order_input ex_world = (Inr r, u)"
    and s: "r_success r"
    and mt: "\<forall>order. r_order r = Some order \<longrightarrow> o_total_amount order = 1550"
    using ex_order_created by (cases "CreateOrder_mutate ex_order_input ex_world") auto
  from order_save_new_total_zero[where self = ex_new_order and force_insert = False and
      w = ex_world and saved = saved and w' = w' and t = 7 and c = 1 and d = ex_date and
      customer = "hd (customers ex_db)" and prods = "take 2 (products ex_db)" and
      date = None and ord = ord and v = v and inp = ex_order_input and r = r and u = u]
    n e b bt m s mt
  show ?thesis by blast
qed


section \<open>The requests of the examples, evaluated\<close>

lemma rounds_numeral:
  "rounds f m (numeral k) s =
     (if m = 0 then [s] else []) @ concat (map (rounds f (m - 1) (pred_numeral k)) (f s))"
  by (simp add: numeral_eq_Suc)

text \<open>What the table says of the code points of the examples.\<close>

lemma ex_decimal:
  "unicode_decimal 48" "unicode_decimal 49" "unicode_decimal 50" "unicode_decimal 51"
  "unicode_decimal 52" "unicode_decimal 53" "unicode_decimal 54" "unicode_decimal 55"
  "unicode_decimal 56" "unicode_decimal 57"
  "unicode_decimal 0x660" "unicode_decimal 0x661" "unicode_decimal 0x662"
  "unicode_decimal 0x663" "unicode_decimal 0x664" "unicode_decimal 0x665"
  "unicode_decimal 0x666" "unicode_decimal 0x667" "unicode_decimal 0x668"
  "unicode_decimal 0x669"
  "\<not> unicode_decimal 10" "\<not> unicode_decimal 43" "\<not> unicode_decimal 45"
  by (simp_all add: unicode_decimal_def unicode_zeros_def)

lemmas customer_defs = codes_def ex_decimal rounds_numeral at_end_def re_match_anchored_def international_def
  dashed_def phone_pattern_def email_exists_def Customer_objects_create_def phone_rejected_def
  phone_format_failure_def CreateCustomer_body_def CreateCustomer_mutate_def bulk_item_def
  BulkCreateCustomers_mutate_def

lemmas filter_defs = lower_def icontains_def dt_key_def dt_le_def restrict_def nonempty_def
  by_method_def filter_low_stock_def ProductFilter_fields_def ProductFilter_qs_def
  evaluate_def where_order_def join_where_def customer_of_def products_of_def on_time_def
  filter_by_product_id_def OrderFilter_qs_def query_orders_def products_all_def
  no_order_filter_def no_product_filter_def ex_db_ordered_def ex_order_def

text \<open>
  Claim C3. The claim says that a request is turned down only when an id fails to resolve,
  and that valid ids, also repeated ones, give an order. The code compares the number of
  rows found with the length of the list (line 258): the request that names the existing
  product 1 twice finds one row for two ids and is turned down as having invalid ids, with
  nothing stored.
\<close>

theorem create_order_rejects_repeated_id:
  "resolves (db ex_world) (Some (IntID 1)) \<and>
   product_ids ex_order_twice = [Some (IntID 1), Some (IntID 1)] \<and>
   fst (CreateOrder_mutate ex_order_twice ex_world) =
     Inr (failed ''One or more invalid product IDs'') \<and>
   db (snd (CreateOrder_mutate ex_order_twice ex_world)) = db ex_world"
  by (simp add: io_defs order_defs ex_defs resolves_def Let_def)

text \<open>
  Claim C4. The claim says that a supplied \<open>orderDate\<close> is the order date that is stored. The
  mutation passes it to \<open>create\<close> (line 273), but \<open>order_date\<close> is declared with
  \<open>auto_now_add=True\<close> (\<open>models.py\<close>, line 52), so the insert replaces it by the time of
  the insert: the request dated 1 January 2020 gives an order, returned and stored, whose
  date is the clock's.
\<close>

theorem create_order_ignores_order_date:
  "order_date ex_order_dated = Some ex_date \<and>
   (\<exists>ord. fst (CreateOrder_mutate ex_order_dated ex_world) =
        Inr \<lparr>r_order = Some ord, r_message = ''Order created successfully'',
             r_success = True\<rparr> \<and>
      o_order_date ord = Some (clock ex_world 3) \<and>
      map o_order_date (orders (db (snd (CreateOrder_mutate ex_order_dated ex_world)))) =
        [Some (clock ex_world 3)]) \<and>
   clock ex_world 3 \<noteq> ex_date"
  by (simp add: io_defs order_defs ex_defs Let_def)

section \<open>Queries\<close>

text \<open>
  Claim C5. The claim says that an order appears once in a query by \<open>product_name\<close> even when
  several of its products match. \<open>product_name\<close> (\<open>filters.py\<close>, line 72) joins the products
  without \<open>distinct()\<close>: the order of a pen and a pencil is listed twice for the value
  \<open>pen\<close>. The filter by \<open>product_id\<close> next to it (lines 77-81) does call \<open>distinct()\<close>.
\<close>

theorem product_name_filter_repeats_order:
  "query_orders ex_db_ordered (no_order_filter\<lparr>of_product_name := Some ''pen''\<rparr>) =
     [ex_order, ex_order] \<and>
   query_orders ex_db_ordered (no_order_filter\<lparr>of_product_id := Some 1\<rparr>) = [ex_order]"
  by (simp add: filter_defs ex_defs)

lemma ProductFilter_fields_low_stock:
  "ProductFilter_fields (f\<lparr>pf_low_stock := v\<rparr>) qs = ProductFilter_fields f qs"
  by (simp add: ProductFilter_fields_def)

text \<open>
  Claim C6. For every product collection and every value of the other filter keys, a query
  with \<open>low_stock = true\<close> lists exactly the products of the base result (the same query
  without \<open>low_stock\<close>) whose stock is below 10, and a query with \<open>low_stock = false\<close> lists
  the base result itself.
\<close>

theorem low_stock_filter:
  "ProductFilter_qs (f\<lparr>pf_low_stock := Some True\<rparr>) qs =
     filter (\<lambda>p. p_stock p < 10) (ProductFilter_qs (f\<lparr>pf_low_stock := None\<rparr>) qs) \<and>
   ProductFilter_qs (f\<lparr>pf_low_stock := Some False\<rparr>) qs =
     ProductFilter_qs (f\<lparr>pf_low_stock := None\<rparr>) qs"
  by (simp add: ProductFilter_qs_def ProductFilter_fields_low_stock by_method_def
        filter_low_stock_def)

theorem low_stock_filter_witness:
  "map p_stock (ProductFilter_qs (no_product_filter\<lparr>pf_low_stock := None\<rparr>) (products ex_db)) =
     [5, 12, 9] \<and>
   map p_stock (ProductFilter_qs (no_product_filter\<lparr>pf_low_stock := Some True\<rparr>) (products ex_db)) =
     [5, 9] \<and>
   ProductFilter_qs (no_product_filter\<lparr>pf_low_stock := Some False\<rparr>) (products ex_db) =
     ProductFilter_qs (no_product_filter\<lparr>pf_low_stock := None\<rparr>) (products ex_db)"
proof -
  have b: "ProductFilter_qs (no_product_filter\<lparr>pf_low_stock := None\<rparr>) (products ex_db) =
     products ex_db"
    by (simp add: filter_defs)
  from low_stock_filter[of no_product_filter "products ex_db"] b show ?thesis
    by (simp add: ex_defs)
qed

section \<open>Faults do not leave a mutation\<close>

lemma try_except_returns:
  "\<exists>r w'. try_except m (\<lambda>e. return (h e)) w = (Inr r, w')"
proof (cases "m w")
  case (Pair x w1)
  then show ?thesis by (cases x) (simp_all add: try_except_def return_def)
qed

text \<open>
  Claim C9. Each of the four mutations returns a result, whatever the request, the store and
  the faults of the store during the request: nothing that is raised from the body of a
  mutation leaves it.
\<close>

theorem mutations_return_results:
  "(\<exists>r w'. CreateCustomer_mutate decimal c w = (Inr r, w')) \<and>
   (\<exists>r w'. BulkCreateCustomers_mutate decimal cs w = (Inr r, w')) \<and>
   (\<exists>r w'. CreateProduct_mutate p w = (Inr r, w')) \<and>
   (\<exists>r w'. CreateOrder_mutate ord w = (Inr r, w'))"
  unfolding CreateCustomer_mutate_def BulkCreateCustomers_mutate_def CreateProduct_mutate_def
    CreateOrder_mutate_def
  by (intro conjI try_except_returns)

theorem mutations_return_results_witness:
  "(\<exists>r w'. CreateCustomer_mutate unicode_decimal ex_customer_new ex_down = (Inr r, w')) \<and>
   (\<exists>r w'. BulkCreateCustomers_mutate unicode_decimal ex_batch ex_down = (Inr r, w')) \<and>
   (\<exists>r w'. CreateProduct_mutate ex_product_input ex_down = (Inr r, w')) \<and>
   (\<exists>r w'. CreateOrder_mutate ex_order_input ex_down = (Inr r, w')) \<and>
   fst (CreateCustomer_mutate unicode_decimal ex_customer_new ex_down) =
     Inr \<lparr>cr_customer = None, cr_message = ''Error creating customer: connection lost'',
          cr_success = False\<rparr>"
proof -
  have "fst (CreateCustomer_mutate unicode_decimal ex_customer_new ex_down) =
     Inr \<lparr>cr_customer = None, cr_message = ''Error creating customer: connection lost'',
          cr_success = False\<rparr>"
    by (simp add: io_defs customer_defs ex_defs)
  with mutations_return_results[of unicode_decimal ex_customer_new ex_down ex_batch
      ex_product_input ex_order_input]
  show ?thesis by simp
qed

section \<open>Creating customers in bulk\<close>

lemma email_exists_no_fault:
  assumes "\<forall>n. fault w n = None"
  shows "email_exists e w =
     (Inr (e \<in> c_email ` set (customers (db w))), w\<lparr>tick := Suc (tick w)\<rparr>)"
  using assms by (auto simp: email_exists_def io_defs)

lemma Customer_objects_create_no_fault:
  assumes "\<forall>n. fault w n = None" and "email \<notin> c_email ` set (customers (db w))"
  shows "\<exists>c w'. Customer_objects_create name email phone w = (Inr c, w') \<and>
     c_name c = name \<and> c_email c = email \<and> c_phone c = phone \<and>
     customers (db w') = customers (db w) @ [c] \<and> fault w' = fault w"
  using assms by (auto simp: Customer_objects_create_def io_defs Let_def)

lemma bulk_item_rejected:
  assumes "\<forall>n. fault w n = None"
    and "in_email x \<in> c_email ` set (customers (db w)) \<or> phone_rejected decimal (in_phone x)"
  shows "\<exists>m w'. bulk_item decimal i x w = (Inr (Rejected m), w') \<and> db w' = db w \<and> fault w' = fault w"
  using assms
  by (auto simp: bulk_item_def email_exists_no_fault try_except_def and_then_def return_def)

lemma bulk_item_created:
  assumes "\<forall>n. fault w n = None"
    and "\<not> (in_email x \<in> c_email ` set (customers (db w)) \<or> phone_rejected decimal (in_phone x))"
  shows "\<exists>c w'. bulk_item decimal i x w = (Inr (Created c), w') \<and>
     c_name c = in_name x \<and> c_email c = in_email x \<and> c_phone c = in_phone x \<and>
     customers (db w') = customers (db w) @ [c] \<and> fault w' = fault w"
proof -
  let ?w1 = "w\<lparr>tick := Suc (tick w)\<rparr>"
  have nf: "\<forall>n. fault ?w1 n = None" using assms(1) by simp
  have ne: "in_email x \<notin> c_email ` set (customers (db ?w1))" using assms(2) by simp
  from Customer_objects_create_no_fault[OF nf ne, of "in_name x" "in_phone x"]
  obtain c w' where
    c: "Customer_objects_create (in_name x) (in_email x) (in_phone x) ?w1 = (Inr c, w')"
    and p: "c_name c = in_name x" "c_email c = in_email x" "c_phone c = in_phone x"
      "customers (db w') = customers (db ?w1) @ [c]" "fault w' = fault ?w1"
    by blast
  from assms c have "bulk_item decimal i x w = (Inr (Created c), w')"
    by (simp add: bulk_item_def email_exists_no_fault try_except_def and_then_def return_def)
  with p show ?thesis by auto
qed

lemma bulk_loop_no_fault:
  assumes "\<forall>n. fault w n = None"
  shows "\<exists>cs es w'. bulk_loop decimal i xs created errors w = (Inr (created @ cs, errors @ es), w') \<and>
     map as_stored cs = map as_asked (passing decimal (map c_email (customers (db w))) xs) \<and>
     length cs + length es = length xs \<and> fault w' = fault w"
  using assms
proof (induction xs arbitrary: i created errors w)
  case Nil
  show ?case
    by (intro exI[of _ "[]"] exI[of _ w]) (simp add: return_def)
next
  case (Cons x xs)
  show ?case
  proof (cases "in_email x \<in> c_email ` set (customers (db w)) \<or> phone_rejected decimal (in_phone x)")
    case True
    from bulk_item_rejected[OF Cons.prems True, of i] obtain m w1 where
      b: "bulk_item decimal i x w = (Inr (Rejected m), w1)" and d: "db w1 = db w"
      and f: "fault w1 = fault w" by blast
    from f Cons.prems have nf: "\<forall>n. fault w1 n = None" by simp
    from Cons.IH[OF nf, of "Suc i" created "errors @ [m]"] obtain cs es w' where
      l: "bulk_loop decimal (Suc i) xs created (errors @ [m]) w1 = (Inr (created @ cs, (errors @ [m]) @ es), w')"
      and r: "map as_stored cs = map as_asked (passing decimal (map c_email (customers (db w1))) xs)"
        "length cs + length es = length xs" "fault w' = fault w1"
      by blast
    from b l have "bulk_loop decimal i (x # xs) created errors w = (Inr (created @ cs, errors @ (m # es)), w')"
      by (simp add: and_then_def)
    moreover from True r d have
      "map as_stored cs = map as_asked (passing decimal (map c_email (customers (db w))) (x # xs))"
      by auto
    moreover from r have "length cs + length (m # es) = length (x # xs)" by simp
    moreover from r f have "fault w' = fault w" by simp
    ultimately show ?thesis by blast
  next
    case False
    from bulk_item_created[OF Cons.prems False, of i] obtain c w1 where
      b: "bulk_item decimal i x w = (Inr (Created c), w1)"
      and p: "c_name c = in_name x" "c_email c = in_email x" "c_phone c = in_phone x"
      and d: "customers (db w1) = customers (db w) @ [c]"
      and f: "fault w1 = fault w" by blast
    from f Cons.prems have nf: "\<forall>n. fault w1 n = None" by simp
    from Cons.IH[OF nf, of "Suc i" "created @ [c]" errors] obtain cs es w' where
      l: "bulk_loop decimal (Suc i) xs (created @ [c]) errors w1 = (Inr ((created @ [c]) @ cs, errors @ es), w')"
      and r: "map as_stored cs = map as_asked (passing decimal (map c_email (customers (db w1))) xs)"
        "length cs + length es = length xs" "fault w' = fault w1"
      by blast
    from b l have "bulk_loop decimal i (x # xs) created errors w = (Inr (created @ (c # cs), errors @ es), w')"
      by (simp add: and_then_def)
    moreover from False r d p have
      "map as_stored (c # cs) = map as_asked (passing decimal (map c_email (customers (db w))) (x # xs))"
      by (auto simp: as_stored_def as_asked_def)
    moreover from r have "length (c # cs) + length es = length (x # xs)" by simp
    moreover from r f have "fault w' = fault w" by simp
    ultimately show ?thesis by blast
  qed
qed

text \<open>
  Claim C7. In a run without store faults, a batch of N items of which N - K pass validation
  and K fail gives a result with the N - K passing items created, in their order, K error
  strings, and \<open>success\<close> exactly when N - K > 0: an item that fails does not stop the items
  after it.
\<close>

theorem bulk_create_counts:
  assumes "\<forall>n. fault w n = None"
  shows "\<exists>r w'. BulkCreateCustomers_mutate decimal inp w = (Inr r, w') \<and>
     map as_stored (b_customers r) = map as_asked (passing decimal (map c_email (customers (db w))) inp) \<and>
     length (b_customers r) = length (passing decimal (map c_email (customers (db w))) inp) \<and>
     length (b_errors r) = length inp - length (passing decimal (map c_email (customers (db w))) inp) \<and>
     b_success r = (0 < length (passing decimal (map c_email (customers (db w))) inp))"
proof -
  let ?w1 = "w\<lparr>tick := Suc (tick w)\<rparr>"
  let ?pass = "passing decimal (map c_email (customers (db w))) inp"
  have nf: "\<forall>n. fault ?w1 n = None" using assms by simp
  from bulk_loop_no_fault[OF nf, of decimal 0 inp "[]" "[]"] obtain cs es w2 where
    l: "bulk_loop decimal 0 inp [] [] ?w1 = (Inr (cs, es), w2)"
    and m: "map as_stored cs = map as_asked ?pass"
    and n: "length cs + length es = length inp" and f: "fault w2 = fault w"
    by auto
  from m have lc: "length cs = length ?pass" by (metis length_map)
  from l f assms have
    "BulkCreateCustomers_mutate decimal inp w =
       (Inr \<lparr>b_customers = cs, b_errors = es, b_success = (0 < length cs)\<rparr>,
        w2\<lparr>tick := Suc (tick w2)\<rparr>)"
    by (simp add: BulkCreateCustomers_mutate_def try_except_def and_then_def atomic_def
          store_op_def return_def)
  with m n lc show ?thesis by auto
qed

lemma ex_batch_passing:
  "passing unicode_decimal (map c_email (customers (db ex_world))) ex_batch =
     [\<lparr>in_name = ''Ben'', in_email = ''b@x.com'', in_phone = None\<rparr>,
      \<lparr>in_name = ''Di'', in_email = ''d@x.com'', in_phone = Some (codes ''123-456-7890'')\<rparr>,
      \<lparr>in_name = ''Eli'', in_email = ''e@x.com'', in_phone = Some ex_phone_arabic\<rparr>]"
  by (simp add: customer_defs ex_defs ex_batch_def)

theorem bulk_create_counts_witness:
  "(\<forall>n. fault ex_world n = None) \<and> length ex_batch = 5 \<and>
   (\<exists>r w'. BulkCreateCustomers_mutate unicode_decimal ex_batch ex_world = (Inr r, w') \<and>
      map c_name (b_customers r) = [''Ben'', ''Di'', ''Eli''] \<and>
      length (b_customers r) = 3 \<and> length (b_errors r) = 2 \<and> b_success r)"
proof -
  have nf: "\<forall>n. fault ex_world n = None" by (simp add: ex_world_def)
  from bulk_create_counts[OF nf, of unicode_decimal ex_batch] obtain r w' where
    b: "BulkCreateCustomers_mutate unicode_decimal ex_batch ex_world = (Inr r, w')" and
    m: "map as_stored (b_customers r) =
          map as_asked (passing unicode_decimal (map c_email (customers (db ex_world))) ex_batch)" and
    c: "length (b_customers r) =
          length (passing unicode_decimal (map c_email (customers (db ex_world))) ex_batch)"
       "length (b_errors r) =
          length ex_batch - length (passing unicode_decimal (map c_email (customers (db ex_world))) ex_batch)"
       "b_success r = (0 < length (passing unicode_decimal (map c_email (customers (db ex_world))) ex_batch))"
    by blast
  have "map c_name (b_customers r) = map fst (map as_stored (b_customers r))"
    by (simp add: as_stored_def comp_def)
  with m have "map c_name (b_customers r) = [''Ben'', ''Di'', ''Eli'']"
    by (simp add: ex_batch_passing as_asked_def)
  with b c nf show ?thesis
    by (simp add: ex_batch_passing) (simp add: ex_batch_def)
qed

section \<open>The format of a phone\<close>

lemma phone_rejected_iff:
  "phone_rejected decimal phone \<longleftrightarrow>
     (\<exists>p. phone = Some p \<and> p \<noteq> [] \<and> \<not> re_match_anchored decimal international p \<and>
        \<not> re_match_anchored decimal dashed p)"
  by (cases phone) (auto simp: phone_rejected_def phone_pattern_def re_match_anchored_def)

lemma CreateCustomer_mutate_cases:
  "fst (CreateCustomer_mutate decimal inp w) = Inr phone_format_failure \<longleftrightarrow>
     fault w (tick w) = None \<and> in_email inp \<notin> c_email ` set (customers (db w)) \<and>
     phone_rejected decimal (in_phone inp)"
proof (cases "fault w (tick w)")
  case (Some m)
  then show ?thesis
    by (simp add: CreateCustomer_mutate_def CreateCustomer_body_def email_exists_def io_defs
          phone_format_failure_def)
next
  case None
  show ?thesis
  proof (cases "in_email inp \<in> c_email ` set (customers (db w))")
    case True
    with None show ?thesis
      by (auto simp: CreateCustomer_mutate_def CreateCustomer_body_def email_exists_def io_defs
            phone_format_failure_def)
  next
    case False
    then have ne: "\<not> (\<exists>c \<in> set (customers (db w)). c_email c = in_email inp)"
      by (auto simp: image_iff)
    note nin = False
    show ?thesis
    proof (cases "phone_rejected decimal (in_phone inp)")
      case True
      with None ne nin show ?thesis
        by (simp add: CreateCustomer_mutate_def CreateCustomer_body_def email_exists_def
              io_defs)
    next
      case False
      with None ne show ?thesis
        by (simp add: CreateCustomer_mutate_def CreateCustomer_body_def email_exists_def
              Customer_objects_create_def io_defs phone_format_failure_def Let_def
              split: option.splits)
    qed
  qed
qed

lemma ex_phone_neither:
  "codes ''12345'' \<noteq> [] \<and>
   \<not> re_match_anchored unicode_decimal international (codes ''12345'') \<and>
   \<not> re_match_anchored unicode_decimal dashed (codes ''12345'')"
  by (simp add: customer_defs)

text \<open>
  The phone \<open>ddd-ddd-dddd\<close> in Arabic-Indic digits has the second format, and the request
  with it gives a customer.
\<close>

lemma ex_phone_arabic_dashed:
  "ex_phone_arabic \<noteq> [] \<and> re_match_anchored unicode_decimal dashed ex_phone_arabic"
  by (simp add: customer_defs ex_phone_arabic_def)

lemma ex_customer_arabic_created:
  "fst (CreateCustomer_mutate unicode_decimal ex_customer_arabic ex_world) =
     Inr \<lparr>cr_customer = Some \<lparr>c_id = 2, c_name = ''Eli'', c_email = ''e@x.com'',
                                c_phone = Some ex_phone_arabic,
                                c_created_at = ex_time\<lparr>dt_micros := 1\<rparr>,
                                c_updated_at = ex_time\<lparr>dt_micros := 2\<rparr>\<rparr>,
          cr_message = ''Customer created successfully'', cr_success = True\<rparr>"
  by (simp add: io_defs customer_defs ex_defs ex_customer_arabic_def ex_phone_arabic_def Let_def)

text \<open>
  Claim C8, as stated: \<open>createCustomer\<close> rejects a request on phone format if and only if the
  phone is present, not empty and matches neither format. This fails for a request whose
  email is taken: the email is checked first (lines 96-101), and the request with the stored
  email and the phone \<open>12345\<close> is turned down for its email, not for its phone.
\<close>

theorem phone_rejection_counterexample:
  "\<not> (fst (CreateCustomer_mutate unicode_decimal ex_customer_taken ex_world) = Inr phone_format_failure \<longleftrightarrow>
      (\<exists>p. in_phone ex_customer_taken = Some p \<and> p \<noteq> [] \<and>
         \<not> re_match_anchored unicode_decimal international p \<and> \<not> re_match_anchored unicode_decimal dashed p))"
proof -
  have "fst (CreateCustomer_mutate unicode_decimal ex_customer_taken ex_world) =
     Inr \<lparr>cr_customer = None, cr_message = ''Email already exists'', cr_success = False\<rparr>"
    by (simp add: io_defs customer_defs ex_defs)
  then have "fst (CreateCustomer_mutate unicode_decimal ex_customer_taken ex_world) \<noteq> Inr phone_format_failure"
    by (simp add: phone_format_failure_def)
  moreover have "\<exists>p. in_phone ex_customer_taken = Some p \<and> p \<noteq> [] \<and>
         \<not> re_match_anchored unicode_decimal international p \<and> \<not> re_match_anchored unicode_decimal dashed p"
    using ex_phone_neither by (simp add: ex_defs)
  ultimately show ?thesis by simp
qed

text \<open>
  Claim C8, amended: \<open>createCustomer\<close> returns the phone format rejection if and only if the
  lookup of the email returns and finds no customer with the email of the request, and the
  phone is present, not empty and matches neither \<open>^\+\d{1,3}\d{9,10}$\<close> nor
  \<open>^\d{3}-\d{3}-\d{4}$\<close>. So a request with an absent or empty phone, or with a phone that
  matches one of the two, is never rejected for its phone format.
\<close>

theorem phone_format_rejection:
  "fst (CreateCustomer_mutate decimal inp w) = Inr phone_format_failure \<longleftrightarrow>
     fault w (tick w) = None \<and> in_email inp \<notin> c_email ` set (customers (db w)) \<and>
     (\<exists>p. in_phone inp = Some p \<and> p \<noteq> [] \<and> \<not> re_match_anchored decimal international p \<and>
        \<not> re_match_anchored decimal dashed p)"
  unfolding CreateCustomer_mutate_cases phone_rejected_iff ..

theorem phone_format_rejection_witness:
  "fst (CreateCustomer_mutate unicode_decimal ex_customer_badphone ex_world) =
     Inr phone_format_failure \<and>
   fault ex_world (tick ex_world) = None \<and>
   in_email ex_customer_badphone \<notin> c_email ` set (customers (db ex_world)) \<and>
   (\<exists>p. in_phone ex_customer_badphone = Some p \<and> p \<noteq> [] \<and>
      \<not> re_match_anchored unicode_decimal international p \<and>
      \<not> re_match_anchored unicode_decimal dashed p) \<and>
   in_phone ex_customer_arabic = Some ex_phone_arabic \<and>
   re_match_anchored unicode_decimal dashed ex_phone_arabic \<and>
   fst (CreateCustomer_mutate unicode_decimal ex_customer_arabic ex_world) \<noteq>
     Inr phone_format_failure"
proof -
  have "fault ex_world (tick ex_world) = None"
    "in_email ex_customer_badphone \<notin> c_email ` set (customers (db ex_world))"
    "\<exists>p. in_phone ex_customer_badphone = Some p \<and> p \<noteq> [] \<and>
      \<not> re_match_anchored unicode_decimal international p \<and>
      \<not> re_match_anchored unicode_decimal dashed p"
    using ex_phone_neither by (simp_all add: ex_defs)
  with phone_format_rejection[of unicode_decimal ex_customer_badphone ex_world]
  have bad: "fst (CreateCustomer_mutate unicode_decimal ex_customer_badphone ex_world) =
     Inr phone_format_failure \<and>
   fault ex_world (tick ex_world) = None \<and>
   in_email ex_customer_badphone \<notin> c_email ` set (customers (db ex_world)) \<and>
   (\<exists>p. in_phone ex_customer_badphone = Some p \<and> p \<noteq> [] \<and>
      \<not> re_match_anchored unicode_decimal international p \<and>
      \<not> re_match_anchored unicode_decimal dashed p)"
    by simp
  have p: "in_phone ex_customer_arabic = Some ex_phone_arabic"
    by (simp add: ex_customer_arabic_def)
  with phone_format_rejection[of unicode_decimal ex_customer_arabic ex_world]
    ex_phone_arabic_dashed
  have "fst (CreateCustomer_mutate unicode_decimal ex_customer_arabic ex_world) \<noteq>
     Inr phone_format_failure"
    by simp
  with bad p ex_phone_arabic_dashed show ?thesis by simp
qed

end
